theory Spec2Isabelle
  imports Complex_Main "HOL-Library.AList" "HOL-Library.Word"
begin

section \<open>Revenue leakage detection: the data model\<close>

text \<open>
  The program \<^verbatim>\<open>revenue_leakage_detector.py\<close> works on a pandas DataFrame. The model
  keeps what the program uses of it.
  \<^item> A column has one of the dtypes that \<^verbatim>\<open>pd.read_csv\<close> infers: \<^verbatim>\<open>bool\<close>, \<^verbatim>\<open>int64\<close>,
    \<^verbatim>\<open>float64\<close> or \<^verbatim>\<open>object\<close> (texts, with NaN for an absent cell). Columns of
    integers beyond the range of \<^verbatim>\<open>int64\<close>, which pandas reads as \<^verbatim>\<open>uint64\<close>, are not
    modelled.
  \<^item> An \<^verbatim>\<open>int64\<close> is a 64-bit word: its arithmetic wraps around, and \<open>sint\<close> reads it.
  \<^item> A \<^verbatim>\<open>float64\<close> is a finite number, an infinity or NaN. The result of an
    operation on finite numbers is rounded by the parameter \<open>rnd\<close> (the rounding of
    binary64 to the nearest representable number) and becomes an infinity beyond the
    largest finite value. The sign of zero is not modelled. NaN is the missing marker of
    pandas.
  \<^item> A frame is its row count (the length of the index) and its columns in order, as an
    association list from column name to column.
  \<^item> An exception is a value of type \<open>error\<close>.

  The loader and the aggregator are embedded. The reporter, \<^verbatim>\<open>plot_leakage_histogram\<close>,
  hands the \<^verbatim>\<open>RevenueLeakage\<close> cells left by \<^verbatim>\<open>dropna\<close> to matplotlib with 15 bins;
  the binning and the drawing are the library's and are not part of this development.
\<close>

datatype float64 = Num rat | PosInf | NegInf | NaN

datatype num = BoolVal bool | IntVal "64 word" | FloatVal float64

datatype column =
    BoolCol "bool list"
  | Int64Col "64 word list"
  | Float64Col "float64 list"
  | ObjCol "string option list"

record frame =
  nrows :: nat
  cols :: "(string \<times> column) list"

datatype error = SourceUnavailable | KeyError string | TypeError

record stats =
  total_records :: nat
  total_leakage :: num
  average_leakage :: float64
  positive_leakage_count :: nat

fun col_length :: "column \<Rightarrow> nat" where
  "col_length (BoolCol bs) = length bs"
| "col_length (Int64Col xs) = length xs"
| "col_length (Float64Col xs) = length xs"
| "col_length (ObjCol ss) = length ss"

fun is_obj :: "column \<Rightarrow> bool" where
  "is_obj (ObjCol ss) = True"
| "is_obj c = False"

fun is_bool :: "column \<Rightarrow> bool" where
  "is_bool (BoolCol bs) = True"
| "is_bool c = False"

text \<open>A frame is rectangular when every column has one cell per row of the index.\<close>

definition wf_frame :: "frame \<Rightarrow> bool" where
  "wf_frame df = list_all (\<lambda>p. col_length (snd p) = nrows df) (cols df)"

subsection \<open>Machine numbers\<close>

text \<open>The largest finite binary64 number, \<open>(2^53 - 1) * 2^971\<close>.\<close>

definition fmax :: rat where
  "fmax = (2 ^ 53 - 1) * 2 ^ 971"

text \<open>The binary64 value of an exact result: rounded, an infinity on overflow.\<close>

definition fl :: "(rat \<Rightarrow> rat) \<Rightarrow> rat \<Rightarrow> float64" where
  "fl rnd x = (let y = rnd x in if fmax < y then PosInf else if y < - fmax then NegInf else Num y)"

definition float_of_int64 :: "(rat \<Rightarrow> rat) \<Rightarrow> 64 word \<Rightarrow> float64" where
  "float_of_int64 rnd w = fl rnd (of_int (sint w))"

definition float_of_bool :: "bool \<Rightarrow> float64" where
  "float_of_bool b = Num (if b then 1 else 0)"

definition int64_of_bool :: "bool \<Rightarrow> 64 word" where
  "int64_of_bool b = (if b then 1 else 0)"

fun fsgn :: "float64 \<Rightarrow> int" where
  "fsgn (Num a) = (if a < 0 then - 1 else if a = 0 then 0 else 1)"
| "fsgn PosInf = 1"
| "fsgn NegInf = - 1"
| "fsgn NaN = 0"

text \<open>
  The binary64 product, difference and sum. NaN on either side gives NaN; so do
  \<open>inf * 0\<close> and \<open>inf - inf\<close>.
\<close>

fun fmul :: "(rat \<Rightarrow> rat) \<Rightarrow> float64 \<Rightarrow> float64 \<Rightarrow> float64" where
  "fmul rnd NaN y = NaN"
| "fmul rnd x NaN = NaN"
| "fmul rnd (Num a) (Num b) = fl rnd (a * b)"
| "fmul rnd x y =
     (if fsgn x * fsgn y = 0 then NaN else if 0 < fsgn x * fsgn y then PosInf else NegInf)"

fun fsub :: "(rat \<Rightarrow> rat) \<Rightarrow> float64 \<Rightarrow> float64 \<Rightarrow> float64" where
  "fsub rnd NaN y = NaN"
| "fsub rnd x NaN = NaN"
| "fsub rnd (Num a) (Num b) = fl rnd (a - b)"
| "fsub rnd PosInf PosInf = NaN"
| "fsub rnd NegInf NegInf = NaN"
| "fsub rnd PosInf y = PosInf"
| "fsub rnd NegInf y = NegInf"
| "fsub rnd (Num a) PosInf = NegInf"
| "fsub rnd (Num a) NegInf = PosInf"

fun fadd :: "(rat \<Rightarrow> rat) \<Rightarrow> float64 \<Rightarrow> float64 \<Rightarrow> float64" where
  "fadd rnd NaN y = NaN"
| "fadd rnd x NaN = NaN"
| "fadd rnd (Num a) (Num b) = fl rnd (a + b)"
| "fadd rnd PosInf NegInf = NaN"
| "fadd rnd NegInf PosInf = NaN"
| "fadd rnd PosInf y = PosInf"
| "fadd rnd NegInf y = NegInf"
| "fadd rnd (Num a) y = y"

text \<open>A binary64 sum divided by a positive count of cells.\<close>

fun fdiv_count :: "(rat \<Rightarrow> rat) \<Rightarrow> float64 \<Rightarrow> nat \<Rightarrow> float64" where
  "fdiv_count rnd (Num a) n = fl rnd (a / of_nat n)"
| "fdiv_count rnd x n = x"

text \<open>\<^verbatim>\<open>x > 0\<close> on a binary64: false on NaN.\<close>

fun fgt0 :: "float64 \<Rightarrow> bool" where
  "fgt0 (Num a) = (0 < a)"
| "fgt0 PosInf = True"
| "fgt0 x = False"

subsection \<open>The pandas operations the program calls\<close>

text \<open>\<^verbatim>\<open>df[name]\<close>: the column of that name, KeyError when there is none.\<close>

definition frame_get :: "frame \<Rightarrow> string \<Rightarrow> error + column" where
  "frame_get df name =
     (case map_of (cols df) name of None \<Rightarrow> Inl (KeyError name) | Some c \<Rightarrow> Inr c)"

text \<open>
  \<^verbatim>\<open>df[name] = series\<close>: a column of that name is replaced where it stands, a new name
  is appended after the last column. The index is untouched.
\<close>

definition frame_set :: "frame \<Rightarrow> string \<Rightarrow> column \<Rightarrow> frame" where
  "frame_set df name c = df\<lparr>cols := AList.update name c (cols df)\<rparr>"

definition columns :: "frame \<Rightarrow> string list" where
  "columns df = map fst (cols df)"

text \<open>
  \<^verbatim>\<open>pd.to_numeric(series, errors='coerce')\<close>. A column of dtype \<^verbatim>\<open>bool\<close>, \<^verbatim>\<open>int64\<close> or
  \<^verbatim>\<open>float64\<close> is returned as it is. In an object column every text goes through the
  number parser, the parameter \<open>to_num\<close>: \<open>None\<close> where the text is no number, an
  \<open>IntVal\<close> for an integer, a \<open>FloatVal\<close> otherwise. When every cell is an integer the
  result has dtype \<^verbatim>\<open>int64\<close>; otherwise it has dtype \<^verbatim>\<open>float64\<close>, the integers converted,
  and a text that fails, like an absent cell, is NaN. (A cell that \<^verbatim>\<open>read_csv\<close> kept as
  \<^verbatim>\<open>True\<close> or \<^verbatim>\<open>False\<close> beside absent cells is a \<open>BoolVal\<close> for the parser and becomes
  1 or 0 in the \<^verbatim>\<open>float64\<close> column.)
\<close>

fun coerce_cell :: "(string \<rightharpoonup> num) \<Rightarrow> string option \<Rightarrow> num option" where
  "coerce_cell to_num None = None"
| "coerce_cell to_num (Some s) = to_num s"

fun is_int_cell :: "num option \<Rightarrow> bool" where
  "is_int_cell (Some (IntVal i)) = True"
| "is_int_cell v = False"

fun int_of_cell :: "num option \<Rightarrow> 64 word" where
  "int_of_cell (Some (IntVal i)) = i"
| "int_of_cell v = 0"

fun float_of_num :: "(rat \<Rightarrow> rat) \<Rightarrow> num \<Rightarrow> float64" where
  "float_of_num rnd (BoolVal b) = float_of_bool b"
| "float_of_num rnd (IntVal i) = float_of_int64 rnd i"
| "float_of_num rnd (FloatVal x) = x"

fun float_of_cell :: "(rat \<Rightarrow> rat) \<Rightarrow> num option \<Rightarrow> float64" where
  "float_of_cell rnd None = NaN"
| "float_of_cell rnd (Some v) = float_of_num rnd v"

fun to_numeric :: "(rat \<Rightarrow> rat) \<Rightarrow> (string \<rightharpoonup> num) \<Rightarrow> column \<Rightarrow> column" where
  "to_numeric rnd to_num (ObjCol ss) =
     (let vs = map (coerce_cell to_num) ss
      in if list_all is_int_cell vs then Int64Col (map int_of_cell vs)
         else Float64Col (map (float_of_cell rnd) vs))"
| "to_numeric rnd to_num c = c"

text \<open>The cells of a numeric column converted to the dtype of the result of an operation.\<close>

fun as_int64 :: "column \<Rightarrow> 64 word list" where
  "as_int64 (BoolCol bs) = map int64_of_bool bs"
| "as_int64 (Int64Col xs) = xs"
| "as_int64 c = []"

fun as_float64 :: "(rat \<Rightarrow> rat) \<Rightarrow> column \<Rightarrow> float64 list" where
  "as_float64 rnd (BoolCol bs) = map float_of_bool bs"
| "as_float64 rnd (Int64Col xs) = map (float_of_int64 rnd) xs"
| "as_float64 rnd (Float64Col xs) = xs"
| "as_float64 rnd (ObjCol ss) = []"

text \<open>
  \<^verbatim>\<open>a * b\<close> and \<^verbatim>\<open>a - b\<close> on two columns of one frame: cell by cell, row by row, in
  the dtype numpy promotes the two operands to. Two \<^verbatim>\<open>bool\<close> columns multiply to a
  \<^verbatim>\<open>bool\<close> column (the conjunction), and numpy refuses to subtract them: TypeError.
  With a \<^verbatim>\<open>float64\<close> operand the result is \<^verbatim>\<open>float64\<close>; otherwise it is \<^verbatim>\<open>int64\<close>, with
  wrap-around. On a column of texts the operators are Python's on the cells, modelled as
  TypeError; the loader never reaches that branch, its operands having been coerced.
\<close>

fun series_mul :: "(rat \<Rightarrow> rat) \<Rightarrow> column \<Rightarrow> column \<Rightarrow> error + column" where
  "series_mul rnd (ObjCol ss) y = Inl TypeError"
| "series_mul rnd x (ObjCol ss) = Inl TypeError"
| "series_mul rnd (BoolCol as) (BoolCol bs) = Inr (BoolCol (map2 (\<and>) as bs))"
| "series_mul rnd (Float64Col xs) y = Inr (Float64Col (map2 (fmul rnd) xs (as_float64 rnd y)))"
| "series_mul rnd x (Float64Col ys) = Inr (Float64Col (map2 (fmul rnd) (as_float64 rnd x) ys))"
| "series_mul rnd x y = Inr (Int64Col (map2 (*) (as_int64 x) (as_int64 y)))"

fun series_sub :: "(rat \<Rightarrow> rat) \<Rightarrow> column \<Rightarrow> column \<Rightarrow> error + column" where
  "series_sub rnd (ObjCol ss) y = Inl TypeError"
| "series_sub rnd x (ObjCol ss) = Inl TypeError"
| "series_sub rnd (BoolCol as) (BoolCol bs) = Inl TypeError"
| "series_sub rnd (Float64Col xs) y = Inr (Float64Col (map2 (fsub rnd) xs (as_float64 rnd y)))"
| "series_sub rnd x (Float64Col ys) = Inr (Float64Col (map2 (fsub rnd) (as_float64 rnd x) ys))"
| "series_sub rnd x y = Inr (Int64Col (map2 (-) (as_int64 x) (as_int64 y)))"

text \<open>
  \<^verbatim>\<open>series.dropna()\<close>: the cells that are not NaN, in order. A \<^verbatim>\<open>bool\<close> or \<^verbatim>\<open>int64\<close>
  column has no NaN.
\<close>

fun drop_nan :: "float64 list \<Rightarrow> float64 list" where
  "drop_nan [] = []"
| "drop_nan (NaN # xs) = drop_nan xs"
| "drop_nan (x # xs) = x # drop_nan xs"

fun drop_none :: "'a option list \<Rightarrow> 'a option list" where
  "drop_none [] = []"
| "drop_none (None # xs) = drop_none xs"
| "drop_none (x # xs) = x # drop_none xs"

fun dropna :: "column \<Rightarrow> column" where
  "dropna (Float64Col xs) = Float64Col (drop_nan xs)"
| "dropna (ObjCol ss) = ObjCol (drop_none ss)"
| "dropna c = c"

text \<open>
  \<^verbatim>\<open>series.sum()\<close>, \<^verbatim>\<open>series.mean()\<close> and \<^verbatim>\<open>series > 0\<close> on a column without NaN.
  \<^item> The sum of an \<^verbatim>\<open>int64\<close> column is an \<^verbatim>\<open>int64\<close>, with wrap-around; that of a
    \<^verbatim>\<open>bool\<close> column is the \<^verbatim>\<open>int64\<close> count of its true cells.
  \<^item> The sum of a \<^verbatim>\<open>float64\<close> column is numpy's: the parameter \<open>fsum\<close> stands for it
    (the additions in the library's order, each rounded). The sum of no cell is 0.
  \<^item> The mean is a \<^verbatim>\<open>float64\<close>: \<open>fsum\<close> of the cells converted to \<^verbatim>\<open>float64\<close>,
    divided by their count; NaN when there is no cell, and no exception. (This is
    pandas without the optional bottleneck accelerator.)
  \<^item> On a column of texts that is not empty the sum concatenates the texts and the mean,
    computed next, raises TypeError, as the comparison would; the model raises at the
    sum already. On an empty column of dtype object the three return 0, NaN and nothing.
\<close>

fun series_sum :: "(float64 list \<Rightarrow> float64) \<Rightarrow> column \<Rightarrow> error + num" where
  "series_sum fsum (BoolCol bs) = Inr (IntVal (of_nat (length (filter (\<lambda>b. b) bs))))"
| "series_sum fsum (Int64Col xs) = Inr (IntVal (sum_list xs))"
| "series_sum fsum (Float64Col xs) = Inr (FloatVal (if xs = [] then Num 0 else fsum xs))"
| "series_sum fsum (ObjCol ss) = (if ss = [] then Inr (IntVal 0) else Inl TypeError)"

fun series_mean ::
  "(rat \<Rightarrow> rat) \<Rightarrow> (float64 list \<Rightarrow> float64) \<Rightarrow> column \<Rightarrow> error + float64" where
  "series_mean rnd fsum (BoolCol bs) =
     Inr (if bs = [] then NaN
          else fdiv_count rnd (float_of_int64 rnd (of_nat (length (filter (\<lambda>b. b) bs))))
                 (length bs))"
| "series_mean rnd fsum (Int64Col xs) =
     Inr (if xs = [] then NaN
          else fdiv_count rnd (fsum (map (float_of_int64 rnd) xs)) (length xs))"
| "series_mean rnd fsum (Float64Col xs) =
     Inr (if xs = [] then NaN else fdiv_count rnd (fsum xs) (length xs))"
| "series_mean rnd fsum (ObjCol ss) = (if ss = [] then Inr NaN else Inl TypeError)"

fun series_gt0 :: "column \<Rightarrow> error + bool list" where
  "series_gt0 (BoolCol bs) = Inr bs"
| "series_gt0 (Int64Col xs) = Inr (map (\<lambda>x. 0 < sint x) xs)"
| "series_gt0 (Float64Col xs) = Inr (map fgt0 xs)"
| "series_gt0 (ObjCol ss) = (if ss = [] then Inr [] else Inl TypeError)"

section \<open>The program\<close>

text \<open>
  One line of \<^verbatim>\<open>load_data\<close>: \<^verbatim>\<open>df[name] = pd.to_numeric(df[name], errors='coerce')\<close>.
\<close>

definition coerce_column ::
  "(rat \<Rightarrow> rat) \<Rightarrow> (string \<rightharpoonup> num) \<Rightarrow> string \<Rightarrow> frame \<Rightarrow> error + frame" where
  "coerce_column rnd to_num name df =
     (case frame_get df name of
        Inl e \<Rightarrow> Inl e
      | Inr c \<Rightarrow> Inr (frame_set df name (to_numeric rnd to_num c)))"

text \<open>
  One line of \<^verbatim>\<open>load_data\<close>: \<^verbatim>\<open>df[out] = df[a] op df[b]\<close>, the left operand read
  first.
\<close>

definition derive_column ::
  "(column \<Rightarrow> column \<Rightarrow> error + column) \<Rightarrow> string \<Rightarrow> string \<Rightarrow> string \<Rightarrow> frame \<Rightarrow> error + frame" where
  "derive_column op out a b df =
     (case frame_get df a of
        Inl e \<Rightarrow> Inl e
      | Inr ca \<Rightarrow>
          (case frame_get df b of
             Inl e \<Rightarrow> Inl e
           | Inr cb \<Rightarrow>
               (case op ca cb of
                  Inl e \<Rightarrow> Inl e
                | Inr c \<Rightarrow> Inr (frame_set df out c))))"

text \<open>
  Lines 46 to 48 of \<^verbatim>\<open>load_data\<close>, under the comment \<^verbatim>\<open>Ensure numeric columns are
  numeric\<close>: the three coercions, in the order of the source.
\<close>

definition coerce_required ::
  "(rat \<Rightarrow> rat) \<Rightarrow> (string \<rightharpoonup> num) \<Rightarrow> frame \<Rightarrow> error + frame" where
  "coerce_required rnd to_num df =
     (case coerce_column rnd to_num ''MonthlyCharges'' df of
        Inl e \<Rightarrow> Inl e
      | Inr df1 \<Rightarrow>
     (case coerce_column rnd to_num ''tenure'' df1 of
        Inl e \<Rightarrow> Inl e
      | Inr df2 \<Rightarrow> coerce_column rnd to_num ''TotalCharges'' df2))"

text \<open>Line 50: \<^verbatim>\<open>df['ExpectedRevenue'] = df['tenure'] * df['MonthlyCharges']\<close>.\<close>

definition expected_revenue :: "(rat \<Rightarrow> rat) \<Rightarrow> frame \<Rightarrow> error + frame" where
  "expected_revenue rnd df =
     derive_column (series_mul rnd) ''ExpectedRevenue'' ''tenure'' ''MonthlyCharges'' df"

text \<open>Line 51: \<^verbatim>\<open>df['RevenueLeakage'] = df['ExpectedRevenue'] - df['TotalCharges']\<close>.\<close>

definition revenue_leakage :: "(rat \<Rightarrow> rat) \<Rightarrow> frame \<Rightarrow> error + frame" where
  "revenue_leakage rnd df =
     derive_column (series_sub rnd) ''RevenueLeakage'' ''ExpectedRevenue'' ''TotalCharges'' df"

text \<open>
  \<^verbatim>\<open>load_data(csv_path)\<close>. \<open>read_csv\<close> stands for \<^verbatim>\<open>pd.read_csv\<close> on the file system
  of the run: the table it parses at a path, \<open>None\<close> where it raises (no file, no
  parsable table). The statements run in the order of the source, each on the frame the
  one before it left.
\<close>

definition load_data ::
  "(rat \<Rightarrow> rat) \<Rightarrow> (string \<rightharpoonup> num) \<Rightarrow> (string \<rightharpoonup> frame) \<Rightarrow> string \<Rightarrow> error + frame" where
  "load_data rnd to_num read_csv csv_path =
     (case read_csv csv_path of
        None \<Rightarrow> Inl SourceUnavailable
      | Some df \<Rightarrow>
     (case coerce_required rnd to_num df of
        Inl e \<Rightarrow> Inl e
      | Inr df3 \<Rightarrow>
     (case expected_revenue rnd df3 of
        Inl e \<Rightarrow> Inl e
      | Inr df4 \<Rightarrow> revenue_leakage rnd df4)))"

text \<open>
  \<^verbatim>\<open>compute_statistics(df)\<close>: the column is read, its NaN cells are dropped, and the
  four entries of the dictionary are computed in the order of the source,
  \<^verbatim>\<open>total_records\<close> from the frame itself.
\<close>

definition compute_statistics ::
  "(rat \<Rightarrow> rat) \<Rightarrow> (float64 list \<Rightarrow> float64) \<Rightarrow> frame \<Rightarrow> error + stats" where
  "compute_statistics rnd fsum df =
     (case frame_get df ''RevenueLeakage'' of
        Inl e \<Rightarrow> Inl e
      | Inr c \<Rightarrow>
     (let leakage = dropna c in
      case series_sum fsum leakage of
        Inl e \<Rightarrow> Inl e
      | Inr tot \<Rightarrow>
     (case series_mean rnd fsum leakage of
        Inl e \<Rightarrow> Inl e
      | Inr avg \<Rightarrow>
     (case series_gt0 leakage of
        Inl e \<Rightarrow> Inl e
      | Inr pos \<Rightarrow>
          Inr \<lparr>total_records = nrows df,
               total_leakage = tot,
               average_leakage = avg,
               positive_leakage_count = length (filter (\<lambda>b. b) pos)\<rparr>))))"

text \<open>
  The first two statements of \<^verbatim>\<open>main\<close>: load the table, then aggregate it. An
  exception of the loader ends the run.
\<close>

definition main_stats ::
  "(rat \<Rightarrow> rat) \<Rightarrow> (float64 list \<Rightarrow> float64) \<Rightarrow> (string \<rightharpoonup> num) \<Rightarrow> (string \<rightharpoonup> frame) \<Rightarrow>
     string \<Rightarrow> error + stats" where
  "main_stats rnd fsum to_num read_csv data_path =
     (case load_data rnd to_num read_csv data_path of
        Inl e \<Rightarrow> Inl e
      | Inr df \<Rightarrow> compute_statistics rnd fsum df)"

section \<open>Reading the tables\<close>

text \<open>
  One cell of a numeric column, as the scalar of its dtype; \<open>None\<close> where the column
  has dtype object or has no such row. The cell \<open>FloatVal NaN\<close> is a missing cell.
\<close>

fun col_cell :: "column \<Rightarrow> nat \<Rightarrow> num option" where
  "col_cell (BoolCol bs) i = (if i < length bs then Some (BoolVal (bs ! i)) else None)"
| "col_cell (Int64Col xs) i = (if i < length xs then Some (IntVal (xs ! i)) else None)"
| "col_cell (Float64Col xs) i = (if i < length xs then Some (FloatVal (xs ! i)) else None)"
| "col_cell (ObjCol ss) i = None"

definition num_cell :: "frame \<Rightarrow> string \<Rightarrow> nat \<Rightarrow> num option" where
  "num_cell df name i =
     (case frame_get df name of Inr c \<Rightarrow> col_cell c i | Inl e \<Rightarrow> None)"

text \<open>
  One cell of a column of texts: \<open>Some (Some s)\<close> is the text \<open>s\<close>, \<open>Some None\<close> an
  absent cell, \<open>None\<close> says the frame has no text cell there.
\<close>

definition obj_cell :: "frame \<Rightarrow> string \<Rightarrow> nat \<Rightarrow> string option option" where
  "obj_cell df name i =
     (case frame_get df name of
        Inr (ObjCol ss) \<Rightarrow> (if i < length ss then Some (ss ! i) else None)
      | _ \<Rightarrow> None)"

definition required_columns :: "string list" where
  "required_columns = [''tenure'', ''MonthlyCharges'', ''TotalCharges'']"

text \<open>The three required columns are there and all have dtype \<^verbatim>\<open>bool\<close>.\<close>

definition required_all_bool :: "frame \<Rightarrow> bool" where
  "required_all_bool df =
     list_all (\<lambda>name. case frame_get df name of Inr c \<Rightarrow> is_bool c | Inl e \<Rightarrow> False)
       required_columns"

subsection \<open>The arithmetic of one row\<close>

text \<open>
  The product and the difference of two cells in the arithmetic of their dtypes, as
  numpy promotes them: two booleans multiply to their conjunction and cannot be
  subtracted; with a \<^verbatim>\<open>float64\<close> operand the operation is that of binary64 on the
  converted operands; otherwise it is that of \<^verbatim>\<open>int64\<close>, modulo \<open>2^64\<close>.
\<close>

fun int64_of_num :: "num \<Rightarrow> 64 word" where
  "int64_of_num (BoolVal b) = int64_of_bool b"
| "int64_of_num (IntVal i) = i"
| "int64_of_num (FloatVal x) = 0"

fun num_mul :: "(rat \<Rightarrow> rat) \<Rightarrow> num \<Rightarrow> num \<Rightarrow> num" where
  "num_mul rnd (BoolVal a) (BoolVal b) = BoolVal (a \<and> b)"
| "num_mul rnd (FloatVal x) v = FloatVal (fmul rnd x (float_of_num rnd v))"
| "num_mul rnd u (FloatVal y) = FloatVal (fmul rnd (float_of_num rnd u) y)"
| "num_mul rnd u v = IntVal (int64_of_num u * int64_of_num v)"

fun num_sub :: "(rat \<Rightarrow> rat) \<Rightarrow> num \<Rightarrow> num \<Rightarrow> error + num" where
  "num_sub rnd (BoolVal a) (BoolVal b) = Inl TypeError"
| "num_sub rnd (FloatVal x) v = Inr (FloatVal (fsub rnd x (float_of_num rnd v)))"
| "num_sub rnd u (FloatVal y) = Inr (FloatVal (fsub rnd (float_of_num rnd u) y))"
| "num_sub rnd u v = Inr (IntVal (int64_of_num u - int64_of_num v))"

subsection \<open>The counts of the specification\<close>

text \<open>
  The number of cells of a column that are not missing, the number of its cells that
  are not missing and greater than 0, and its cells that are not missing, as binary64
  numbers. They are written from the words of the specification, by filtering, and do
  not use \<open>dropna\<close> or the series operations of the program.
\<close>

fun non_missing :: "column \<Rightarrow> nat" where
  "non_missing (BoolCol bs) = length bs"
| "non_missing (Int64Col xs) = length xs"
| "non_missing (Float64Col xs) = length (filter (\<lambda>x. x \<noteq> NaN) xs)"
| "non_missing (ObjCol ss) = length (filter (\<lambda>s. s \<noteq> None) ss)"

fun positive_cells :: "column \<Rightarrow> nat" where
  "positive_cells (BoolCol bs) = length (filter (\<lambda>b. b) bs)"
| "positive_cells (Int64Col xs) = length (filter (\<lambda>x. 0 < sint x) xs)"
| "positive_cells (Float64Col xs) = length (filter (\<lambda>x. x \<noteq> NaN \<and> fgt0 x) xs)"
| "positive_cells (ObjCol ss) = 0"

fun present_floats :: "(rat \<Rightarrow> rat) \<Rightarrow> column \<Rightarrow> float64 list" where
  "present_floats rnd (BoolCol bs) = map float_of_bool bs"
| "present_floats rnd (Int64Col xs) = map (float_of_int64 rnd) xs"
| "present_floats rnd (Float64Col xs) = filter (\<lambda>x. x \<noteq> NaN) xs"
| "present_floats rnd (ObjCol ss) = []"

subsection \<open>What the loader returns, in closed form\<close>

text \<open>
  The frame after the five assignments of \<^verbatim>\<open>load_data\<close>: the three coerced columns
  and the two derived ones, stored in the order of the source (lemma
  \<open>load_data_unfold\<close> shows that this is what \<open>load_data\<close> computes).
\<close>

definition enrich ::
  "frame \<Rightarrow> column \<Rightarrow> column \<Rightarrow> column \<Rightarrow> column \<Rightarrow> column \<Rightarrow> frame" where
  "enrich raw m t c e l =
     frame_set (frame_set (frame_set (frame_set (frame_set raw
       ''MonthlyCharges'' m) ''tenure'' t) ''TotalCharges'' c)
       ''ExpectedRevenue'' e) ''RevenueLeakage'' l"

subsection \<open>Sample tables\<close>

text \<open>
  The additions of a short array, from left to right: the order of numpy's sum on fewer
  than eight cells.
\<close>

definition seq_sum :: "(rat \<Rightarrow> rat) \<Rightarrow> float64 list \<Rightarrow> float64" where
  "seq_sum rnd xs = foldl (fadd rnd) (Num 0) xs"

text \<open>Scenario A of the specification: one customer, 10 months at 50, 450 paid.\<close>

definition scenario_A :: frame where
  "scenario_A = \<lparr>nrows = 1, cols =
     [(''tenure'', Int64Col [10]), (''MonthlyCharges'', Int64Col [50]),
      (''TotalCharges'', Int64Col [450])]\<rparr>"

text \<open>Scenario B: one customer, 5 months at 20, the total is the text \<^verbatim>\<open>NA\<close>.\<close>

definition scenario_B :: frame where
  "scenario_B = \<lparr>nrows = 1, cols =
     [(''tenure'', Int64Col [5]), (''MonthlyCharges'', Int64Col [20]),
      (''TotalCharges'', ObjCol [Some ''NA''])]\<rparr>"

text \<open>Scenario C: two customers, with leakage 30 and -10.\<close>

definition scenario_C :: frame where
  "scenario_C = \<lparr>nrows = 2, cols =
     [(''tenure'', Int64Col [1, 1]), (''MonthlyCharges'', Int64Col [100, 50]),
      (''TotalCharges'', Int64Col [70, 60])]\<rparr>"

text \<open>
  Two customers with an identifier column; the tenure of the first and the total of the
  second are texts that are no numbers (the blank total is the one of the Telco data set).
\<close>

definition text_cells :: frame where
  "text_cells = \<lparr>nrows = 2, cols =
     [(''customerID'', ObjCol [Some ''a-1'', Some ''b-2'']),
      (''tenure'', ObjCol [Some ''one'', Some ''5'']),
      (''MonthlyCharges'', Int64Col [20, 20]),
      (''TotalCharges'', ObjCol [Some ''100'', Some '' ''])]\<rparr>"

definition text_numbers :: "string \<rightharpoonup> num" where
  "text_numbers = [''5'' \<mapsto> IntVal 5, ''100'' \<mapsto> IntVal 100]"

text \<open>A table that already has columns of the two derived names.\<close>

definition already_enriched :: frame where
  "already_enriched = \<lparr>nrows = 1, cols =
     [(''tenure'', Int64Col [10]), (''MonthlyCharges'', Int64Col [50]),
      (''ExpectedRevenue'', ObjCol [Some ''n/a'']), (''RevenueLeakage'', Int64Col [0]),
      (''TotalCharges'', Int64Col [450])]\<rparr>"

text \<open>A table without the \<^verbatim>\<open>tenure\<close> column.\<close>

definition no_tenure :: frame where
  "no_tenure = \<lparr>nrows = 1, cols =
     [(''MonthlyCharges'', Int64Col [50]), (''TotalCharges'', Int64Col [450])]\<rparr>"

text \<open>A table whose three required columns hold \<^verbatim>\<open>True\<close>: all of dtype \<^verbatim>\<open>bool\<close>.\<close>

definition all_flags :: frame where
  "all_flags = \<lparr>nrows = 1, cols =
     [(''tenure'', BoolCol [True]), (''MonthlyCharges'', BoolCol [True]),
      (''TotalCharges'', BoolCol [True])]\<rparr>"

text \<open>One customer, \<open>2^32\<close> months at \<open>2^32\<close>, nothing paid.\<close>

definition wide_ints :: frame where
  "wide_ints = \<lparr>nrows = 1, cols =
     [(''tenure'', Int64Col [4294967296]), (''MonthlyCharges'', Int64Col [4294967296]),
      (''TotalCharges'', Int64Col [0])]\<rparr>"

text \<open>Two customers, one month at \<open>2^62\<close> each, nothing paid.\<close>

definition big_leakage :: frame where
  "big_leakage = \<lparr>nrows = 2, cols =
     [(''tenure'', Int64Col [1, 1]),
      (''MonthlyCharges'', Int64Col [4611686018427387904, 4611686018427387904]),
      (''TotalCharges'', Int64Col [0, 0])]\<rparr>"

text \<open>Three customers; the monthly charge of the second is missing.\<close>

definition float_rows :: frame where
  "float_rows = \<lparr>nrows = 3, cols =
     [(''tenure'', Int64Col [1, 1, 1]),
      (''MonthlyCharges'', Float64Col [Num 100, NaN, Num 50]),
      (''TotalCharges'', Float64Col [Num 70, Num 1, Num 60])]\<rparr>"

text \<open>The tables the loader returns on the samples (lemmas \<open>load_scenario_A\<close> and following).\<close>

definition scenario_A_enriched :: frame where
  "scenario_A_enriched = \<lparr>nrows = 1, cols =
     [(''tenure'', Int64Col [10]), (''MonthlyCharges'', Int64Col [50]),
      (''TotalCharges'', Int64Col [450]), (''ExpectedRevenue'', Int64Col [500]),
      (''RevenueLeakage'', Int64Col [50])]\<rparr>"

definition scenario_B_enriched :: frame where
  "scenario_B_enriched = \<lparr>nrows = 1, cols =
     [(''tenure'', Int64Col [5]), (''MonthlyCharges'', Int64Col [20]),
      (''TotalCharges'', Float64Col [NaN]), (''ExpectedRevenue'', Int64Col [100]),
      (''RevenueLeakage'', Float64Col [NaN])]\<rparr>"

definition scenario_C_enriched :: frame where
  "scenario_C_enriched = \<lparr>nrows = 2, cols =
     [(''tenure'', Int64Col [1, 1]), (''MonthlyCharges'', Int64Col [100, 50]),
      (''TotalCharges'', Int64Col [70, 60]),
      (''ExpectedRevenue'', Int64Col [100, 50]),
      (''RevenueLeakage'', Int64Col [30, - 10])]\<rparr>"

definition text_cells_enriched :: frame where
  "text_cells_enriched = \<lparr>nrows = 2, cols =
     [(''customerID'', ObjCol [Some ''a-1'', Some ''b-2'']),
      (''tenure'', Float64Col [NaN, Num 5]),
      (''MonthlyCharges'', Int64Col [20, 20]),
      (''TotalCharges'', Float64Col [Num 100, NaN]),
      (''ExpectedRevenue'', Float64Col [NaN, Num 100]),
      (''RevenueLeakage'', Float64Col [NaN, NaN])]\<rparr>"

definition already_enriched_reloaded :: frame where
  "already_enriched_reloaded = \<lparr>nrows = 1, cols =
     [(''tenure'', Int64Col [10]), (''MonthlyCharges'', Int64Col [50]),
      (''ExpectedRevenue'', Int64Col [500]), (''RevenueLeakage'', Int64Col [50]),
      (''TotalCharges'', Int64Col [450])]\<rparr>"

definition wide_ints_enriched :: frame where
  "wide_ints_enriched = \<lparr>nrows = 1, cols =
     [(''tenure'', Int64Col [4294967296]), (''MonthlyCharges'', Int64Col [4294967296]),
      (''TotalCharges'', Int64Col [0]), (''ExpectedRevenue'', Int64Col [0]),
      (''RevenueLeakage'', Int64Col [0])]\<rparr>"

definition float_rows_enriched :: frame where
  "float_rows_enriched = \<lparr>nrows = 3, cols =
     [(''tenure'', Int64Col [1, 1, 1]),
      (''MonthlyCharges'', Float64Col [Num 100, NaN, Num 50]),
      (''TotalCharges'', Float64Col [Num 70, Num 1, Num 60]),
      (''ExpectedRevenue'', Float64Col [Num 100, NaN, Num 50]),
      (''RevenueLeakage'', Float64Col [Num 30, NaN, Num (- 10)])]\<rparr>"

section \<open>Frames: reading and writing columns\<close>

lemma frame_get_set [simp]:
  "frame_get (frame_set df k c) k' = (if k' = k then Inr c else frame_get df k')"
  by (simp add: frame_get_def frame_set_def update_conv')

lemma nrows_frame_set [simp]: "nrows (frame_set df k c) = nrows df"
  by (simp add: frame_set_def)

lemma columns_frame_set:
  "columns (frame_set df k c) =
     (if k \<in> set (columns df) then columns df else columns df @ [k])"
  by (simp add: columns_def frame_set_def update_keys)

lemma frame_get_Inr_iff: "(\<exists>c. frame_get df k = Inr c) \<longleftrightarrow> k \<in> set (columns df)"
proof -
  have "map_of (cols df) k \<noteq> None \<longleftrightarrow> k \<in> fst ` set (cols df)"
    by (simp add: map_of_eq_None_iff)
  then show ?thesis
    by (auto simp: frame_get_def columns_def split: option.splits)
qed

lemma frame_get_Inl_iff:
  "frame_get df k = Inl e \<longleftrightarrow> e = KeyError k \<and> k \<notin> set (columns df)"
proof -
  have "map_of (cols df) k = None \<longleftrightarrow> k \<notin> fst ` set (cols df)"
    by (simp add: map_of_eq_None_iff)
  then show ?thesis
    by (cases "map_of (cols df) k") (auto simp: frame_get_def columns_def)
qed

lemma wf_frame_get:
  "wf_frame df \<Longrightarrow> frame_get df k = Inr c \<Longrightarrow> col_length c = nrows df"
  by (auto simp: wf_frame_def frame_get_def list_all_iff split: option.splits
      dest!: map_of_SomeD)

lemma wf_frame_set:
  "wf_frame df \<Longrightarrow> col_length c = nrows df \<Longrightarrow> wf_frame (frame_set df k c)"
proof -
  have "set (AList.update k c al) \<subseteq> insert (k, c) (set al)" for al
    by (induction al) auto
  from this [of "cols df"] show
    "wf_frame df \<Longrightarrow> col_length c = nrows df \<Longrightarrow> wf_frame (frame_set df k c)"
    by (auto simp: wf_frame_def frame_set_def list_all_iff)
qed

section \<open>Columns: coercion and arithmetic\<close>

lemma to_numeric_not_obj [simp]: "\<not> is_obj (to_numeric rnd to_num c)"
  by (cases c) (simp_all add: Let_def)

lemma col_length_to_numeric [simp]: "col_length (to_numeric rnd to_num c) = col_length c"
  by (cases c) (simp_all add: Let_def)

lemma is_bool_to_numeric [simp]: "is_bool (to_numeric rnd to_num c) = is_bool c"
  by (cases c) (simp_all add: Let_def)

lemma length_as_float64: "\<not> is_obj c \<Longrightarrow> length (as_float64 rnd c) = col_length c"
  by (cases c) simp_all

lemma series_mul_numeric:
  assumes "\<not> is_obj x" and "\<not> is_obj y"
  shows "\<exists>e. series_mul rnd x y = Inr e \<and> \<not> is_obj e \<and>
           col_length e = min (col_length x) (col_length y) \<and>
           (is_bool e \<longleftrightarrow> is_bool x \<and> is_bool y)"
  using assms by (cases x; cases y) simp_all

lemma series_sub_numeric:
  assumes "\<not> is_obj x" and "\<not> is_obj y"
  shows "(is_bool x \<and> is_bool y \<longrightarrow> series_sub rnd x y = Inl TypeError) \<and>
         (\<not> (is_bool x \<and> is_bool y) \<longrightarrow>
            (\<exists>l. series_sub rnd x y = Inr l \<and> \<not> is_obj l \<and> \<not> is_bool l \<and>
               col_length l = min (col_length x) (col_length y)))"
  using assms by (cases x; cases y) simp_all

lemma series_mul_Inr_D:
  "series_mul rnd x y = Inr e \<Longrightarrow> \<not> is_obj x \<and> \<not> is_obj y \<and> \<not> is_obj e"
  by (cases x; cases y) auto

lemma series_sub_Inr_D:
  "series_sub rnd x y = Inr l \<Longrightarrow> \<not> is_obj x \<and> \<not> is_obj y \<and> \<not> is_obj l \<and> \<not> is_bool l"
  by (cases x; cases y) auto

lemma col_cell_Some_iff:
  "(\<exists>v. col_cell c i = Some v) \<longleftrightarrow> \<not> is_obj c \<and> i < col_length c"
  by (cases c) simp_all

text \<open>A column operation computes each row by the arithmetic of one row.\<close>

lemma col_cell_series_mul:
  assumes "series_mul rnd x y = Inr e"
    and "col_cell x i = Some a" and "col_cell y i = Some b"
  shows "col_cell e i = Some (num_mul rnd a b)"
  using assms
  by (cases x; cases y)
     (auto simp: float_of_bool_def int64_of_bool_def split: if_splits)

lemma col_cell_series_sub:
  assumes "series_sub rnd x y = Inr l"
    and "col_cell x i = Some a" and "col_cell y i = Some b"
  shows "\<exists>v. col_cell l i = Some v \<and> num_sub rnd a b = Inr v"
  using assms
  by (cases x; cases y)
     (auto simp: float_of_bool_def int64_of_bool_def split: if_splits)

lemma fmul_NaN [simp]: "fmul rnd x NaN = NaN"
  by (cases x) simp_all

lemma fsub_NaN [simp]: "fsub rnd x NaN = NaN"
  by (cases x) simp_all

lemma num_mul_NaN [simp]:
  "num_mul rnd (FloatVal NaN) b = FloatVal NaN" "num_mul rnd a (FloatVal NaN) = FloatVal NaN"
  by (cases b; simp) (cases a; simp)

lemma num_sub_NaN [simp]:
  "num_sub rnd (FloatVal NaN) b = Inr (FloatVal NaN)"
  "num_sub rnd a (FloatVal NaN) = Inr (FloatVal NaN)"
  by (cases b; simp) (cases a; simp)

section \<open>The loader in closed form\<close>

lemma coerce_required_unfold:
  "coerce_required rnd to_num raw =
     (case frame_get raw ''MonthlyCharges'' of
        Inl e \<Rightarrow> Inl e
      | Inr mc \<Rightarrow>
          (case frame_get raw ''tenure'' of
             Inl e \<Rightarrow> Inl e
           | Inr tn \<Rightarrow>
               (case frame_get raw ''TotalCharges'' of
                  Inl e \<Rightarrow> Inl e
                | Inr tc \<Rightarrow>
                    Inr (frame_set (frame_set (frame_set raw
                      ''MonthlyCharges'' (to_numeric rnd to_num mc))
                      ''tenure'' (to_numeric rnd to_num tn))
                      ''TotalCharges'' (to_numeric rnd to_num tc)))))"
  by (simp add: coerce_required_def coerce_column_def split: sum.splits)

lemma load_data_unfold:
  "load_data rnd to_num read_csv p =
     (case read_csv p of
        None \<Rightarrow> Inl SourceUnavailable
      | Some raw \<Rightarrow>
          (case frame_get raw ''MonthlyCharges'' of
             Inl e \<Rightarrow> Inl e
           | Inr mc \<Rightarrow>
               (case frame_get raw ''tenure'' of
                  Inl e \<Rightarrow> Inl e
                | Inr tn \<Rightarrow>
                    (case frame_get raw ''TotalCharges'' of
                       Inl e \<Rightarrow> Inl e
                     | Inr tc \<Rightarrow>
                         (case series_mul rnd (to_numeric rnd to_num tn)
                                 (to_numeric rnd to_num mc) of
                            Inl e \<Rightarrow> Inl e
                          | Inr er \<Rightarrow>
                              (case series_sub rnd er (to_numeric rnd to_num tc) of
                                 Inl e \<Rightarrow> Inl e
                               | Inr rl \<Rightarrow>
                                   Inr (enrich raw (to_numeric rnd to_num mc)
                                     (to_numeric rnd to_num tn) (to_numeric rnd to_num tc)
                                     er rl)))))))"
  by (simp add: load_data_def coerce_required_unfold expected_revenue_def
      revenue_leakage_def derive_column_def enrich_def split: option.splits sum.splits)

lemma load_data_Inr_D:
  assumes "load_data rnd to_num read_csv p = Inr df"
  shows "\<exists>raw mc tn tc er rl. read_csv p = Some raw \<and>
           frame_get raw ''MonthlyCharges'' = Inr mc \<and>
           frame_get raw ''tenure'' = Inr tn \<and>
           frame_get raw ''TotalCharges'' = Inr tc \<and>
           series_mul rnd (to_numeric rnd to_num tn) (to_numeric rnd to_num mc) = Inr er \<and>
           series_sub rnd er (to_numeric rnd to_num tc) = Inr rl \<and>
           df = enrich raw (to_numeric rnd to_num mc) (to_numeric rnd to_num tn)
                  (to_numeric rnd to_num tc) er rl"
  using assms by (auto simp: load_data_unfold split: option.splits sum.splits)

lemma frame_get_enrich:
  "frame_get (enrich raw m t c e l) k =
     (if k = ''RevenueLeakage'' then Inr l
      else if k = ''ExpectedRevenue'' then Inr e
      else if k = ''TotalCharges'' then Inr c
      else if k = ''tenure'' then Inr t
      else if k = ''MonthlyCharges'' then Inr m
      else frame_get raw k)"
  by (simp add: enrich_def)

lemma nrows_enrich [simp]: "nrows (enrich raw m t c e l) = nrows raw"
  by (simp add: enrich_def)

lemma wf_enrich:
  assumes "wf_frame raw"
    and "col_length m = nrows raw" and "col_length t = nrows raw"
    and "col_length c = nrows raw" and "col_length e = nrows raw"
    and "col_length l = nrows raw"
  shows "wf_frame (enrich raw m t c e l)"
  unfolding enrich_def
  by (intro wf_frame_set assms(1)) (simp_all add: assms)

lemma columns_enrich:
  assumes "set required_columns \<subseteq> set (columns raw)"
    and "''ExpectedRevenue'' \<notin> set (columns raw)"
    and "''RevenueLeakage'' \<notin> set (columns raw)"
  shows "columns (enrich raw m t c e l) =
           columns raw @ [''ExpectedRevenue'', ''RevenueLeakage'']"
  using assms by (simp add: enrich_def columns_frame_set required_columns_def)

lemma required_all_bool_iff:
  "required_all_bool df \<longleftrightarrow>
     (\<exists>t m c. frame_get df ''tenure'' = Inr t \<and> is_bool t \<and>
        frame_get df ''MonthlyCharges'' = Inr m \<and> is_bool m \<and>
        frame_get df ''TotalCharges'' = Inr c \<and> is_bool c)"
  by (auto simp: required_all_bool_def required_columns_def split: sum.splits)

lemma required_present:
  assumes "set required_columns \<subseteq> set (columns raw)"
  shows "\<exists>mc tn tc. frame_get raw ''MonthlyCharges'' = Inr mc \<and>
           frame_get raw ''tenure'' = Inr tn \<and> frame_get raw ''TotalCharges'' = Inr tc"
  using assms frame_get_Inr_iff [of raw "''MonthlyCharges''"]
    frame_get_Inr_iff [of raw "''tenure''"] frame_get_Inr_iff [of raw "''TotalCharges''"]
  by (simp add: required_columns_def)

text \<open>
  With the three columns there, the loader returns a table unless all three are
  boolean, and then it raises the TypeError of the subtraction.
\<close>

lemma load_data_required:
  assumes "read_csv p = Some raw"
    and "frame_get raw ''MonthlyCharges'' = Inr mc"
    and "frame_get raw ''tenure'' = Inr tn"
    and "frame_get raw ''TotalCharges'' = Inr tc"
  shows "(is_bool mc \<and> is_bool tn \<and> is_bool tc \<longrightarrow>
            load_data rnd to_num read_csv p = Inl TypeError) \<and>
         (\<not> (is_bool mc \<and> is_bool tn \<and> is_bool tc) \<longrightarrow>
            (\<exists>er rl.
               series_mul rnd (to_numeric rnd to_num tn) (to_numeric rnd to_num mc) = Inr er \<and>
               series_sub rnd er (to_numeric rnd to_num tc) = Inr rl \<and>
               load_data rnd to_num read_csv p =
                 Inr (enrich raw (to_numeric rnd to_num mc) (to_numeric rnd to_num tn)
                        (to_numeric rnd to_num tc) er rl)))"
proof -
  let ?m = "to_numeric rnd to_num mc" and ?t = "to_numeric rnd to_num tn"
    and ?c = "to_numeric rnd to_num tc"
  from series_mul_numeric [of ?t ?m rnd] obtain er
    where er: "series_mul rnd ?t ?m = Inr er" "\<not> is_obj er"
      "is_bool er \<longleftrightarrow> is_bool tn \<and> is_bool mc"
    by auto
  from series_sub_numeric [of er ?c rnd] er(2)
  have sub: "is_bool er \<and> is_bool tc \<longrightarrow> series_sub rnd er ?c = Inl TypeError"
    "\<not> (is_bool er \<and> is_bool tc) \<longrightarrow> (\<exists>rl. series_sub rnd er ?c = Inr rl)"
    by auto
  from assms er(1) er(3) sub show ?thesis
    by (auto simp: load_data_unfold)
qed

lemma load_data_Inr_I:
  assumes "read_csv p = Some raw"
    and "set required_columns \<subseteq> set (columns raw)"
    and "\<not> required_all_bool raw"
  shows "\<exists>mc tn tc er rl. frame_get raw ''MonthlyCharges'' = Inr mc \<and>
           frame_get raw ''tenure'' = Inr tn \<and>
           frame_get raw ''TotalCharges'' = Inr tc \<and>
           series_mul rnd (to_numeric rnd to_num tn) (to_numeric rnd to_num mc) = Inr er \<and>
           series_sub rnd er (to_numeric rnd to_num tc) = Inr rl \<and>
           load_data rnd to_num read_csv p =
             Inr (enrich raw (to_numeric rnd to_num mc) (to_numeric rnd to_num tn)
                    (to_numeric rnd to_num tc) er rl)"
proof -
  from required_present [OF assms(2)] obtain mc tn tc
    where g: "frame_get raw ''MonthlyCharges'' = Inr mc" "frame_get raw ''tenure'' = Inr tn"
      "frame_get raw ''TotalCharges'' = Inr tc"
    by blast
  with assms(3) have "\<not> (is_bool mc \<and> is_bool tn \<and> is_bool tc)"
    by (auto simp: required_all_bool_iff)
  with load_data_required [of read_csv p raw mc tn tc rnd to_num, OF assms(1) g] g
  show ?thesis
    by blast
qed

lemma load_data_all_bool:
  assumes "read_csv p = Some raw" and "required_all_bool raw"
  shows "load_data rnd to_num read_csv p = Inl TypeError"
proof -
  from assms(2) obtain t m c where g: "frame_get raw ''MonthlyCharges'' = Inr m"
    "frame_get raw ''tenure'' = Inr t" "frame_get raw ''TotalCharges'' = Inr c"
    and b: "is_bool m" "is_bool t" "is_bool c"
    by (auto simp: required_all_bool_iff)
  with load_data_required [of read_csv p raw m t c rnd to_num, OF assms(1) g]
  show ?thesis
    by blast
qed

text \<open>
  The loader raises in three ways only: the table cannot be read, a required column is
  not there, or the three required columns are all boolean.
\<close>

lemma load_data_error_cases:
  assumes "load_data rnd to_num read_csv p = Inl e"
  shows "e = SourceUnavailable \<and> read_csv p = None \<or>
         (\<exists>raw name. read_csv p = Some raw \<and> name \<in> set required_columns \<and>
            name \<notin> set (columns raw) \<and> e = KeyError name) \<or>
         (\<exists>raw. read_csv p = Some raw \<and> set required_columns \<subseteq> set (columns raw) \<and>
            required_all_bool raw \<and> e = TypeError)"
proof (cases "read_csv p")
  case None
  with assms show ?thesis
    by (simp add: load_data_unfold)
next
  case (Some raw)
  show ?thesis
  proof (cases "set required_columns \<subseteq> set (columns raw)")
    case True
    from required_present [OF True] obtain mc tn tc
      where g: "frame_get raw ''MonthlyCharges'' = Inr mc" "frame_get raw ''tenure'' = Inr tn"
        "frame_get raw ''TotalCharges'' = Inr tc"
      by blast
    from load_data_required [of read_csv p raw mc tn tc rnd to_num, OF Some g] assms
    have "is_bool mc \<and> is_bool tn \<and> is_bool tc" and "e = TypeError"
      by auto
    with g have "required_all_bool raw"
      by (simp add: required_all_bool_iff)
    with Some True \<open>e = TypeError\<close> show ?thesis
      by simp
  next
    case False
    show ?thesis
    proof (cases "frame_get raw ''MonthlyCharges''")
      case (Inl e1)
      with assms Some have "e = e1"
        by (simp add: load_data_unfold)
      with Inl Some show ?thesis
        by (auto simp: frame_get_Inl_iff required_columns_def)
    next
      case mc: (Inr mc)
      show ?thesis
      proof (cases "frame_get raw ''tenure''")
        case (Inl e2)
        with assms Some mc have "e = e2"
          by (simp add: load_data_unfold)
        with Inl Some show ?thesis
          by (auto simp: frame_get_Inl_iff required_columns_def)
      next
        case tn: (Inr tn)
        show ?thesis
        proof (cases "frame_get raw ''TotalCharges''")
          case (Inl e3)
          with assms Some mc tn have "e = e3"
            by (simp add: load_data_unfold)
          with Inl Some show ?thesis
            by (auto simp: frame_get_Inl_iff required_columns_def)
        next
          case tc: (Inr tc)
          from mc tn tc frame_get_Inr_iff [of raw "''MonthlyCharges''"]
            frame_get_Inr_iff [of raw "''tenure''"] frame_get_Inr_iff [of raw "''TotalCharges''"]
          have "set required_columns \<subseteq> set (columns raw)"
            by (simp add: required_columns_def)
          with False show ?thesis
            by simp
        qed
      qed
    qed
  qed
qed

text \<open>
  What the loader hands to the aggregator: a frame with as many rows as the table read,
  rectangular when that one was, and with a \<^verbatim>\<open>RevenueLeakage\<close> column of dtype \<^verbatim>\<open>int64\<close>
  or \<^verbatim>\<open>float64\<close>.
\<close>

lemma load_data_enriched:
  assumes "load_data rnd to_num read_csv p = Inr df"
    and "read_csv p = Some raw"
  shows "nrows df = nrows raw \<and> (wf_frame raw \<longrightarrow> wf_frame df) \<and>
         (\<exists>c. frame_get df ''RevenueLeakage'' = Inr c \<and> \<not> is_obj c \<and> \<not> is_bool c)"
proof -
  from load_data_Inr_D [OF assms(1)] assms(2) obtain mc tn tc er rl
    where g: "frame_get raw ''MonthlyCharges'' = Inr mc" "frame_get raw ''tenure'' = Inr tn"
      "frame_get raw ''TotalCharges'' = Inr tc"
    and er: "series_mul rnd (to_numeric rnd to_num tn) (to_numeric rnd to_num mc) = Inr er"
    and rl: "series_sub rnd er (to_numeric rnd to_num tc) = Inr rl"
    and df: "df = enrich raw (to_numeric rnd to_num mc) (to_numeric rnd to_num tn)
                  (to_numeric rnd to_num tc) er rl"
    by auto
  from series_mul_numeric [of "to_numeric rnd to_num tn" "to_numeric rnd to_num mc" rnd] er
  have ler: "col_length er = min (col_length tn) (col_length mc)" "\<not> is_obj er"
    by auto
  from series_sub_numeric [of er "to_numeric rnd to_num tc" rnd] rl ler(2)
  have lrl: "col_length rl = min (col_length er) (col_length tc)"
    by (cases "is_bool er \<and> is_bool tc") auto
  have "wf_frame df" if "wf_frame raw"
    unfolding df using that g ler lrl
    by (intro wf_enrich) (simp_all add: wf_frame_get)
  with series_sub_Inr_D [OF rl] show ?thesis
    by (simp add: df frame_get_enrich)
qed

section \<open>Machine integers\<close>

lemma sint_mult_exact:
  fixes a b :: "64 word"
  assumes "- (2 ^ 63) \<le> sint a * sint b" and "sint a * sint b < 2 ^ 63"
  shows "sint (a * b) = sint a * sint b"
  using assms by (simp add: sint_word_ariths signed_take_bit_int_eq_self)

lemma sint_diff_exact:
  fixes a b :: "64 word"
  assumes "- (2 ^ 63) \<le> sint a - sint b" and "sint a - sint b < 2 ^ 63"
  shows "sint (a - b) = sint a - sint b"
  using assms by (simp add: sint_word_ariths signed_take_bit_int_eq_self)

section \<open>The samples, evaluated\<close>

lemmas load_data_steps =
  load_data_def coerce_required_def coerce_column_def expected_revenue_def
  revenue_leakage_def derive_column_def frame_get_def frame_set_def

lemmas float_steps = fl_def fmax_def float_of_int64_def float_of_bool_def

lemma load_scenario_A:
  "load_data rnd to_num [''in.csv'' \<mapsto> scenario_A] ''in.csv'' = Inr scenario_A_enriched"
  by (simp add: load_data_steps scenario_A_def scenario_A_enriched_def)

lemma load_scenario_B:
  "to_num ''NA'' = None \<Longrightarrow>
   load_data rnd to_num [p \<mapsto> scenario_B] p = Inr scenario_B_enriched"
  by (simp add: load_data_steps scenario_B_def scenario_B_enriched_def)

lemma load_scenario_C:
  "load_data rnd to_num [''in.csv'' \<mapsto> scenario_C] ''in.csv'' = Inr scenario_C_enriched"
  by (simp add: load_data_steps scenario_C_def scenario_C_enriched_def)

lemma load_text_cells:
  "load_data id text_numbers [''in.csv'' \<mapsto> text_cells] ''in.csv'' = Inr text_cells_enriched"
  by (simp add: load_data_steps float_steps text_cells_def text_numbers_def
      text_cells_enriched_def)

lemma load_already_enriched:
  "load_data rnd to_num [''in.csv'' \<mapsto> already_enriched] ''in.csv'' =
     Inr already_enriched_reloaded"
  by (simp add: load_data_steps already_enriched_def already_enriched_reloaded_def)

lemma load_no_tenure:
  "load_data rnd to_num [''in.csv'' \<mapsto> no_tenure] ''in.csv'' = Inl (KeyError ''tenure'')"
  by (simp add: load_data_steps no_tenure_def)

lemma load_all_flags:
  "load_data rnd to_num [''in.csv'' \<mapsto> all_flags] ''in.csv'' = Inl TypeError"
  by (simp add: load_data_steps all_flags_def)

lemma load_wide_ints:
  "load_data rnd to_num [''in.csv'' \<mapsto> wide_ints] ''in.csv'' = Inr wide_ints_enriched"
  by (simp add: load_data_steps wide_ints_def wide_ints_enriched_def)

lemma load_float_rows:
  "load_data id to_num [''in.csv'' \<mapsto> float_rows] ''in.csv'' = Inr float_rows_enriched"
  by (simp add: load_data_steps float_steps float_rows_def float_rows_enriched_def)

section \<open>The loader\<close>

text \<open>
  Claim C1, as the specification states it: where tenure, monthly charges and total
  charges are all present, the expected revenue is their product exactly. It fails on
  integer columns, whose arithmetic is that of \<^verbatim>\<open>int64\<close>: for \<open>2^32\<close> months at \<open>2^32\<close>
  the loader stores the expected revenue 0, not \<open>2^64\<close>.
\<close>

theorem int64_product_wraps_counterexample:
  "load_data id Map.empty [''in.csv'' \<mapsto> wide_ints] ''in.csv'' = Inr wide_ints_enriched \<and>
   num_cell wide_ints_enriched ''tenure'' 0 = Some (IntVal 4294967296) \<and>
   num_cell wide_ints_enriched ''MonthlyCharges'' 0 = Some (IntVal 4294967296) \<and>
   num_cell wide_ints_enriched ''TotalCharges'' 0 = Some (IntVal 0) \<and>
   num_cell wide_ints_enriched ''ExpectedRevenue'' 0 = Some (IntVal 0) \<and>
   sint (4294967296 :: 64 word) * sint (4294967296 :: 64 word) \<noteq> sint (0 :: 64 word)"
proof -
  have "load_data id Map.empty [''in.csv'' \<mapsto> wide_ints] ''in.csv'' = Inr wide_ints_enriched"
    by (rule load_wide_ints)
  then show ?thesis
    by (simp add: num_cell_def frame_get_def wide_ints_enriched_def)
qed

text \<open>
  Claim C1, amended. In every row of the loaded table, \<^verbatim>\<open>ExpectedRevenue\<close> is the product
  of tenure and monthly charges and \<^verbatim>\<open>RevenueLeakage\<close> is that product minus the total
  charges, both in the machine arithmetic of the columns: \<^verbatim>\<open>int64\<close> with wrap-around
  when no operand is a \<^verbatim>\<open>float64\<close>, binary64 otherwise. On \<^verbatim>\<open>int64\<close> cells they are the
  exact product and difference whenever these lie in the range of \<^verbatim>\<open>int64\<close>; on finite
  \<^verbatim>\<open>float64\<close> cells they are the rounded product and the rounded difference.
\<close>

theorem derived_fields_machine:
  assumes "load_data rnd to_num read_csv p = Inr df"
    and "num_cell df ''tenure'' i = Some t"
    and "num_cell df ''MonthlyCharges'' i = Some m"
    and "num_cell df ''TotalCharges'' i = Some c"
  shows "num_cell df ''ExpectedRevenue'' i = Some (num_mul rnd t m) \<and>
         (\<exists>l. num_cell df ''RevenueLeakage'' i = Some l \<and>
            num_sub rnd (num_mul rnd t m) c = Inr l) \<and>
         (\<forall>a b d. t = IntVal a \<and> m = IntVal b \<and> c = IntVal d \<and>
            - (2 ^ 63) \<le> sint a * sint b \<and> sint a * sint b < 2 ^ 63 \<and>
            - (2 ^ 63) \<le> sint a * sint b - sint d \<and> sint a * sint b - sint d < 2 ^ 63 \<longrightarrow>
            (\<exists>e l. num_cell df ''ExpectedRevenue'' i = Some (IntVal e) \<and>
               sint e = sint a * sint b \<and>
               num_cell df ''RevenueLeakage'' i = Some (IntVal l) \<and>
               sint l = sint a * sint b - sint d)) \<and>
         (\<forall>a b d. t = FloatVal (Num a) \<and> m = FloatVal (Num b) \<and> c = FloatVal (Num d) \<longrightarrow>
            num_cell df ''ExpectedRevenue'' i = Some (FloatVal (fl rnd (a * b))) \<and>
            num_cell df ''RevenueLeakage'' i =
              Some (FloatVal (fsub rnd (fl rnd (a * b)) (Num d))))"
proof -
  from load_data_Inr_D [OF assms(1)] obtain raw mc tn tc er rl
    where er: "series_mul rnd (to_numeric rnd to_num tn) (to_numeric rnd to_num mc) = Inr er"
    and rl: "series_sub rnd er (to_numeric rnd to_num tc) = Inr rl"
    and df: "df = enrich raw (to_numeric rnd to_num mc) (to_numeric rnd to_num tn)
                  (to_numeric rnd to_num tc) er rl"
    by blast
  from assms(2-4) have cells: "col_cell (to_numeric rnd to_num tn) i = Some t"
    "col_cell (to_numeric rnd to_num mc) i = Some m"
    "col_cell (to_numeric rnd to_num tc) i = Some c"
    by (simp_all add: df num_cell_def frame_get_enrich)
  from col_cell_series_mul [OF er cells(1,2)]
  have e: "col_cell er i = Some (num_mul rnd t m)" .
  from col_cell_series_sub [OF rl e cells(3)] obtain l
    where l: "col_cell rl i = Some l" "num_sub rnd (num_mul rnd t m) c = Inr l"
    by blast
  have E: "num_cell df ''ExpectedRevenue'' i = Some (num_mul rnd t m)"
    and L: "num_cell df ''RevenueLeakage'' i = Some l"
    using e l(1) by (simp_all add: df num_cell_def frame_get_enrich)
  have ints: "\<exists>e l. num_cell df ''ExpectedRevenue'' i = Some (IntVal e) \<and>
               sint e = sint a * sint b \<and>
               num_cell df ''RevenueLeakage'' i = Some (IntVal l) \<and>
               sint l = sint a * sint b - sint d"
    if "t = IntVal a" "m = IntVal b" "c = IntVal d"
      "- (2 ^ 63) \<le> sint a * sint b" "sint a * sint b < 2 ^ 63"
      "- (2 ^ 63) \<le> sint a * sint b - sint d" "sint a * sint b - sint d < 2 ^ 63"
    for a b d
  proof -
    have p: "sint (a * b) = sint a * sint b"
      using that(4,5) by (rule sint_mult_exact)
    with that(6,7) have "sint (a * b - d) = sint (a * b) - sint d"
      by (intro sint_diff_exact) simp_all
    with p E L l(2) that(1-3) show ?thesis
      by auto
  qed
  have floats: "num_cell df ''ExpectedRevenue'' i = Some (FloatVal (fl rnd (a * b))) \<and>
      num_cell df ''RevenueLeakage'' i = Some (FloatVal (fsub rnd (fl rnd (a * b)) (Num d)))"
    if "t = FloatVal (Num a)" "m = FloatVal (Num b)" "c = FloatVal (Num d)" for a b d
    using E L l(2) that by auto
  from E L l(2) ints floats show ?thesis
    by blast
qed

text \<open>
  Scenario A: 10 months at 50 with 450 paid, all integers within range, give 500
  expected and 50 of leakage.
\<close>

theorem derived_fields_machine_witness:
  "load_data id Map.empty [''in.csv'' \<mapsto> scenario_A] ''in.csv'' = Inr scenario_A_enriched \<and>
   num_cell scenario_A_enriched ''tenure'' 0 = Some (IntVal 10) \<and>
   num_cell scenario_A_enriched ''MonthlyCharges'' 0 = Some (IntVal 50) \<and>
   num_cell scenario_A_enriched ''TotalCharges'' 0 = Some (IntVal 450) \<and>
   num_cell scenario_A_enriched ''ExpectedRevenue'' 0 = Some (IntVal 500) \<and>
   num_cell scenario_A_enriched ''RevenueLeakage'' 0 = Some (IntVal 50)"
proof -
  have l: "load_data id Map.empty [''in.csv'' \<mapsto> scenario_A] ''in.csv'' =
      Inr scenario_A_enriched"
    by (rule load_scenario_A)
  have t: "num_cell scenario_A_enriched ''tenure'' 0 = Some (IntVal 10)"
    and m: "num_cell scenario_A_enriched ''MonthlyCharges'' 0 = Some (IntVal 50)"
    and c: "num_cell scenario_A_enriched ''TotalCharges'' 0 = Some (IntVal 450)"
    by (simp_all add: num_cell_def frame_get_def scenario_A_enriched_def)
  from derived_fields_machine [OF l t m c] l t m c show ?thesis
    by auto
qed

text \<open>
  Claim C2, as the specification states it: a row where any of the three source fields
  is missing has both derived fields missing. It fails on Scenario B: the total is no
  number, the leakage is missing, and the expected revenue is 5 * 20 = 100 all the same,
  since \<^verbatim>\<open>ExpectedRevenue\<close> is computed from tenure and monthly charges alone.
\<close>

theorem missing_total_keeps_expected_revenue_counterexample:
  "load_data id Map.empty [''in.csv'' \<mapsto> scenario_B] ''in.csv'' = Inr scenario_B_enriched \<and>
   num_cell scenario_B_enriched ''TotalCharges'' 0 = Some (FloatVal NaN) \<and>
   num_cell scenario_B_enriched ''ExpectedRevenue'' 0 = Some (IntVal 100) \<and>
   num_cell scenario_B_enriched ''RevenueLeakage'' 0 = Some (FloatVal NaN)"
proof -
  have "load_data id Map.empty [''in.csv'' \<mapsto> scenario_B] ''in.csv'' = Inr scenario_B_enriched"
    by (rule load_scenario_B) simp
  then show ?thesis
    by (simp add: num_cell_def frame_get_def scenario_B_enriched_def)
qed

text \<open>
  Claim C2, amended. In every row of the loaded table: if tenure or monthly charges is
  missing, both derived fields are missing; if total charges is missing, the leakage is
  missing. A missing field is the marker NaN (\<open>FloatVal NaN\<close>), never the number zero.
\<close>

theorem missing_propagates:
  assumes "load_data rnd to_num read_csv p = Inr df"
    and "read_csv p = Some raw"
    and "wf_frame raw"
  shows "(num_cell df ''tenure'' i = Some (FloatVal NaN) \<or>
          num_cell df ''MonthlyCharges'' i = Some (FloatVal NaN)
            \<longrightarrow> num_cell df ''ExpectedRevenue'' i = Some (FloatVal NaN) \<and>
                 num_cell df ''RevenueLeakage'' i = Some (FloatVal NaN)) \<and>
         (num_cell df ''TotalCharges'' i = Some (FloatVal NaN)
            \<longrightarrow> num_cell df ''RevenueLeakage'' i = Some (FloatVal NaN))"
proof -
  let ?m = "\<lambda>c. to_numeric rnd to_num c"
  from load_data_Inr_D [OF assms(1)] assms(2) obtain mc tn tc er rl
    where g: "frame_get raw ''MonthlyCharges'' = Inr mc" "frame_get raw ''tenure'' = Inr tn"
      "frame_get raw ''TotalCharges'' = Inr tc"
    and er: "series_mul rnd (?m tn) (?m mc) = Inr er"
    and rl: "series_sub rnd er (?m tc) = Inr rl"
    and df: "df = enrich raw (?m mc) (?m tn) (?m tc) er rl"
    by auto
  from assms(3) g have len: "col_length mc = nrows raw" "col_length tn = nrows raw"
    "col_length tc = nrows raw"
    by (simp_all add: wf_frame_get)
  from series_mul_numeric [of "?m tn" "?m mc" rnd] er
  have ler: "col_length er = nrows raw" "\<not> is_obj er"
    by (auto simp: len)
  have cell: "num_cell df ''tenure'' i = col_cell (?m tn) i"
    "num_cell df ''MonthlyCharges'' i = col_cell (?m mc) i"
    "num_cell df ''TotalCharges'' i = col_cell (?m tc) i"
    "num_cell df ''ExpectedRevenue'' i = col_cell er i"
    "num_cell df ''RevenueLeakage'' i = col_cell rl i"
    by (simp_all add: df num_cell_def frame_get_enrich)
  have some: "\<exists>v. col_cell (?m tn) i = Some v" "\<exists>v. col_cell (?m mc) i = Some v"
    "\<exists>v. col_cell (?m tc) i = Some v" "\<exists>v. col_cell er i = Some v"
    if "i < nrows raw"
    using that ler by (simp_all add: col_cell_Some_iff len)
  have row: "i < nrows raw" if "col_cell (?m c) i = Some v" "col_length c = nrows raw" for c v
    using that col_cell_Some_iff [of "?m c" i] by auto
  have leak: "col_cell rl i = Some (FloatVal NaN)"
    if "col_cell er i = Some (FloatVal NaN) \<or> col_cell (?m tc) i = Some (FloatVal NaN)"
      and "i < nrows raw"
  proof -
    from some [OF that(2)] obtain e c where ec: "col_cell er i = Some e"
      "col_cell (?m tc) i = Some c"
      by blast
    from col_cell_series_sub [OF rl ec] that(1) ec show ?thesis
      by auto
  qed
  have prod: "col_cell er i = Some (FloatVal NaN)"
    if "col_cell (?m tn) i = Some (FloatVal NaN) \<or> col_cell (?m mc) i = Some (FloatVal NaN)"
      and "i < nrows raw"
  proof -
    from some [OF that(2)] obtain t m where tm: "col_cell (?m tn) i = Some t"
      "col_cell (?m mc) i = Some m"
      by blast
    from col_cell_series_mul [OF er tm] that(1) tm show ?thesis
      by auto
  qed
  show ?thesis
    unfolding cell using prod leak row len by blast
qed

text \<open>
  The first customer of the sample has a tenure that is no number, the second a total
  that is no number.
\<close>

theorem missing_propagates_witness:
  "load_data id text_numbers [''in.csv'' \<mapsto> text_cells] ''in.csv'' = Inr text_cells_enriched \<and>
   wf_frame text_cells \<and>
   num_cell text_cells_enriched ''tenure'' 0 = Some (FloatVal NaN) \<and>
   num_cell text_cells_enriched ''ExpectedRevenue'' 0 = Some (FloatVal NaN) \<and>
   num_cell text_cells_enriched ''RevenueLeakage'' 0 = Some (FloatVal NaN) \<and>
   num_cell text_cells_enriched ''TotalCharges'' 1 = Some (FloatVal NaN) \<and>
   num_cell text_cells_enriched ''RevenueLeakage'' 1 = Some (FloatVal NaN)"
proof -
  let ?fs = "[''in.csv'' \<mapsto> text_cells]"
  have l: "load_data id text_numbers ?fs ''in.csv'' = Inr text_cells_enriched"
    by (rule load_text_cells)
  have r: "?fs ''in.csv'' = Some text_cells"
    by simp
  have wf: "wf_frame text_cells"
    by (simp add: wf_frame_def text_cells_def)
  have t: "num_cell text_cells_enriched ''tenure'' 0 = Some (FloatVal NaN)"
    and c: "num_cell text_cells_enriched ''TotalCharges'' 1 = Some (FloatVal NaN)"
    by (simp_all add: num_cell_def frame_get_def text_cells_enriched_def)
  from missing_propagates [of id text_numbers ?fs "''in.csv''" text_cells_enriched text_cells 0,
      OF l r wf]
    missing_propagates [of id text_numbers ?fs "''in.csv''" text_cells_enriched text_cells 1,
      OF l r wf]
    l wf t c
  show ?thesis
    by simp
qed

section \<open>The aggregator\<close>

lemma drop_nan_filter: "drop_nan xs = filter (\<lambda>x. x \<noteq> NaN) xs"
  by (induction xs rule: drop_nan.induct) simp_all

lemma drop_none_filter: "drop_none ss = filter (\<lambda>s. s \<noteq> None) ss"
  by (induction ss rule: drop_none.induct) simp_all

lemma col_length_dropna: "col_length (dropna c) = non_missing c"
  by (cases c) (simp_all add: drop_nan_filter drop_none_filter)

lemma non_missing_le: "non_missing c \<le> col_length c"
  by (cases c) simp_all

lemma positive_cells_le: "positive_cells c \<le> non_missing c"
proof (cases c)
  case (Float64Col xs)
  have "length (filter (\<lambda>x. x \<noteq> NaN \<and> fgt0 x) xs) \<le> length (filter (\<lambda>x. x \<noteq> NaN) xs)"
    by (induction xs) auto
  with Float64Col show ?thesis by simp
qed simp_all

text \<open>
  The aggregator on a frame whose \<^verbatim>\<open>RevenueLeakage\<close> column is \<open>c\<close>, dtype by dtype.
\<close>

lemma compute_statistics_int64:
  assumes "frame_get df ''RevenueLeakage'' = Inr (Int64Col xs)"
  shows "compute_statistics rnd fsum df =
           Inr \<lparr>total_records = nrows df,
                total_leakage = IntVal (sum_list xs),
                average_leakage =
                  (if xs = [] then NaN
                   else fdiv_count rnd (fsum (map (float_of_int64 rnd) xs)) (length xs)),
                positive_leakage_count = length (filter (\<lambda>x. 0 < sint x) xs)\<rparr>"
  using assms by (simp add: compute_statistics_def comp_def)

lemma compute_statistics_float64:
  assumes "frame_get df ''RevenueLeakage'' = Inr (Float64Col xs)"
  shows "compute_statistics rnd fsum df =
           Inr \<lparr>total_records = nrows df,
                total_leakage =
                  FloatVal (if filter (\<lambda>x. x \<noteq> NaN) xs = [] then Num 0
                            else fsum (filter (\<lambda>x. x \<noteq> NaN) xs)),
                average_leakage =
                  (if filter (\<lambda>x. x \<noteq> NaN) xs = [] then NaN
                   else fdiv_count rnd (fsum (filter (\<lambda>x. x \<noteq> NaN) xs))
                          (length (filter (\<lambda>x. x \<noteq> NaN) xs))),
                positive_leakage_count = length (filter (\<lambda>x. x \<noteq> NaN \<and> fgt0 x) xs)\<rparr>"
  using assms by (simp add: compute_statistics_def drop_nan_filter comp_def conj_commute)

lemma compute_statistics_bool:
  assumes "frame_get df ''RevenueLeakage'' = Inr (BoolCol bs)"
  shows "compute_statistics rnd fsum df =
           Inr \<lparr>total_records = nrows df,
                total_leakage = IntVal (of_nat (length (filter (\<lambda>b. b) bs))),
                average_leakage =
                  (if bs = [] then NaN
                   else fdiv_count rnd
                          (float_of_int64 rnd (of_nat (length (filter (\<lambda>b. b) bs))))
                          (length bs)),
                positive_leakage_count = length (filter (\<lambda>b. b) bs)\<rparr>"
  using assms by (simp add: compute_statistics_def)

lemma compute_statistics_obj:
  assumes "frame_get df ''RevenueLeakage'' = Inr (ObjCol ss)"
  shows "compute_statistics rnd fsum df =
           (if filter (\<lambda>s. s \<noteq> None) ss = []
            then Inr \<lparr>total_records = nrows df, total_leakage = IntVal 0,
                      average_leakage = NaN, positive_leakage_count = 0\<rparr>
            else Inl TypeError)"
  using assms by (simp add: compute_statistics_def drop_none_filter)

lemmas compute_statistics_cases =
  compute_statistics_bool compute_statistics_int64 compute_statistics_float64
  compute_statistics_obj

text \<open>
  Claim C3. \<^verbatim>\<open>total_records\<close> is the number of rows of the table given to the
  aggregator, which is the number of cells of its \<^verbatim>\<open>RevenueLeakage\<close> column, the
  missing ones included; it is not the number of cells left after \<^verbatim>\<open>dropna\<close>. This holds
  for every rectangular table on which the aggregator does not raise: a numeric
  \<^verbatim>\<open>RevenueLeakage\<close> column, as the loader returns it, or a column of dtype object with
  no text in it.
\<close>

theorem total_records_counts_all_rows:
  assumes "wf_frame df"
    and "frame_get df ''RevenueLeakage'' = Inr c"
    and "\<not> is_obj c \<or> non_missing c = 0"
  shows "\<exists>st. compute_statistics rnd fsum df = Inr st \<and>
           total_records st = nrows df \<and> total_records st = col_length c"
  using wf_frame_get [OF assms(1,2)] assms(2,3)
  by (cases c) (simp_all add: compute_statistics_cases)

text \<open>
  The loaded table of Scenario B has one row, with a missing leakage: one record is
  counted although no cell is left after \<^verbatim>\<open>dropna\<close>.
\<close>

theorem total_records_counts_all_rows_witness:
  "wf_frame scenario_B_enriched \<and>
   frame_get scenario_B_enriched ''RevenueLeakage'' = Inr (Float64Col [NaN]) \<and>
   \<not> is_obj (Float64Col [NaN]) \<and>
   non_missing (Float64Col [NaN]) = 0 \<and>
   col_length (dropna (Float64Col [NaN])) = 0 \<and>
   (\<exists>st. compute_statistics id (seq_sum id) scenario_B_enriched = Inr st \<and>
      total_records st = 1)"
proof -
  have wf: "wf_frame scenario_B_enriched"
    by (simp add: wf_frame_def scenario_B_enriched_def)
  have g: "frame_get scenario_B_enriched ''RevenueLeakage'' = Inr (Float64Col [NaN])"
    by (simp add: frame_get_def scenario_B_enriched_def)
  have n: "\<not> is_obj (Float64Col [NaN]) \<or> non_missing (Float64Col [NaN]) = 0"
    by simp
  from total_records_counts_all_rows [OF wf g n, of id "seq_sum id"] wf g show ?thesis
    by auto
qed

text \<open>
  Claim C4. When no cell of \<^verbatim>\<open>RevenueLeakage\<close> is left after the missing ones are
  dropped, the aggregator raises nothing and returns a total leakage of 0 (the zero of
  the column's dtype), an average that is the missing value NaN, and a positive count
  of 0. In particular the run on Scenario B (5 months at 20, a total that no parser
  takes for a number) returns 1 record, a total of 0, no average and a positive count
  of 0.
\<close>

theorem empty_leakage_statistics:
  "(frame_get df ''RevenueLeakage'' = Inr c \<and> non_missing c = 0 \<longrightarrow>
      compute_statistics rnd fsum df =
        Inr \<lparr>total_records = nrows df,
             total_leakage = (case c of Float64Col xs \<Rightarrow> FloatVal (Num 0) | _ \<Rightarrow> IntVal 0),
             average_leakage = NaN,
             positive_leakage_count = 0\<rparr>) \<and>
   (to_num ''NA'' = None \<longrightarrow>
      main_stats rnd fsum to_num [p \<mapsto> scenario_B] p =
        Inr \<lparr>total_records = 1, total_leakage = FloatVal (Num 0), average_leakage = NaN,
             positive_leakage_count = 0\<rparr>)"
proof (intro conjI impI)
  assume a: "frame_get df ''RevenueLeakage'' = Inr c \<and> non_missing c = 0"
  have "length (filter (\<lambda>x. x \<noteq> NaN \<and> fgt0 x) xs) = 0"
    if "filter (\<lambda>x. x \<noteq> NaN) xs = []" for xs
    using positive_cells_le [of "Float64Col xs"] that by simp
  with a show "compute_statistics rnd fsum df =
      Inr \<lparr>total_records = nrows df,
           total_leakage = (case c of Float64Col xs \<Rightarrow> FloatVal (Num 0) | _ \<Rightarrow> IntVal 0),
           average_leakage = NaN,
           positive_leakage_count = 0\<rparr>"
    by (cases c) (simp_all add: compute_statistics_cases)
next
  assume "to_num ''NA'' = None"
  then have "load_data rnd to_num [p \<mapsto> scenario_B] p = Inr scenario_B_enriched"
    by (rule load_scenario_B)
  moreover have "frame_get scenario_B_enriched ''RevenueLeakage'' = Inr (Float64Col [NaN])"
    by (simp add: frame_get_def scenario_B_enriched_def)
  ultimately show "main_stats rnd fsum to_num [p \<mapsto> scenario_B] p =
      Inr \<lparr>total_records = 1, total_leakage = FloatVal (Num 0), average_leakage = NaN,
           positive_leakage_count = 0\<rparr>"
    by (simp add: main_stats_def compute_statistics_float64 scenario_B_enriched_def)
qed

text \<open>
  A table of two rows whose leakage is missing in both, and Scenario B with a parser
  that knows no number at all.
\<close>

theorem empty_leakage_statistics_witness:
  "frame_get text_cells_enriched ''RevenueLeakage'' = Inr (Float64Col [NaN, NaN]) \<and>
   non_missing (Float64Col [NaN, NaN]) = 0 \<and>
   compute_statistics id (seq_sum id) text_cells_enriched =
     Inr \<lparr>total_records = 2, total_leakage = FloatVal (Num 0), average_leakage = NaN,
          positive_leakage_count = 0\<rparr> \<and>
   Map.empty ''NA'' = (None :: num option) \<and>
   main_stats id (seq_sum id) Map.empty [''in.csv'' \<mapsto> scenario_B] ''in.csv'' =
     Inr \<lparr>total_records = 1, total_leakage = FloatVal (Num 0), average_leakage = NaN,
          positive_leakage_count = 0\<rparr>"
proof -
  have g: "frame_get text_cells_enriched ''RevenueLeakage'' = Inr (Float64Col [NaN, NaN])"
    by (simp add: frame_get_def text_cells_enriched_def)
  have d: "non_missing (Float64Col [NaN, NaN]) = 0"
    by simp
  have n: "nrows text_cells_enriched = 2"
    by (simp add: text_cells_enriched_def)
  from empty_leakage_statistics [of text_cells_enriched "Float64Col [NaN, NaN]" id
      "seq_sum id" Map.empty "''in.csv''"] g d n
  show ?thesis
    by simp
qed

text \<open>
  Claim C6. \<^verbatim>\<open>positive_leakage_count\<close> is the number of leakage cells that are not
  missing and strictly greater than 0; it is at most the number of leakage cells that
  are not missing (which is the number of cells \<^verbatim>\<open>dropna\<close> leaves), and that is at most
  \<^verbatim>\<open>total_records\<close>.
\<close>

theorem positive_count_chain:
  assumes "wf_frame df"
    and "frame_get df ''RevenueLeakage'' = Inr c"
    and "\<not> is_obj c \<or> non_missing c = 0"
  shows "\<exists>st. compute_statistics rnd fsum df = Inr st \<and>
           positive_leakage_count st = positive_cells c \<and>
           positive_leakage_count st \<le> non_missing c \<and>
           non_missing c = col_length (dropna c) \<and>
           non_missing c \<le> total_records st"
proof -
  from assms(2,3) obtain st where st: "compute_statistics rnd fsum df = Inr st"
    "total_records st = nrows df" "positive_leakage_count st = positive_cells c"
    by (cases c) (simp_all add: compute_statistics_cases)
  moreover from wf_frame_get [OF assms(1,2)] non_missing_le [of c]
  have "non_missing c \<le> nrows df"
    by simp
  ultimately show ?thesis
    using positive_cells_le [of c] by (simp add: col_length_dropna)
qed

text \<open>
  Three customers with leakages 30, missing and -10: one positive, two not missing,
  three records.
\<close>

theorem positive_count_chain_witness:
  "wf_frame float_rows_enriched \<and>
   frame_get float_rows_enriched ''RevenueLeakage'' =
     Inr (Float64Col [Num 30, NaN, Num (- 10)]) \<and>
   \<not> is_obj (Float64Col [Num 30, NaN, Num (- 10)]) \<and>
   non_missing (Float64Col [Num 30, NaN, Num (- 10)]) = 2 \<and>
   (\<exists>st. compute_statistics id (seq_sum id) float_rows_enriched = Inr st \<and>
      positive_leakage_count st = 1 \<and> total_records st = 3)"
proof -
  let ?c = "Float64Col [Num 30, NaN, Num (- 10)]"
  have wf: "wf_frame float_rows_enriched"
    by (simp add: wf_frame_def float_rows_enriched_def)
  have g: "frame_get float_rows_enriched ''RevenueLeakage'' = Inr ?c"
    by (simp add: frame_get_def float_rows_enriched_def)
  have n: "\<not> is_obj ?c \<or> non_missing ?c = 0"
    by simp
  from positive_count_chain [OF wf g n, of id "seq_sum id"] obtain st
    where st: "compute_statistics id (seq_sum id) float_rows_enriched = Inr st"
      "positive_leakage_count st = positive_cells ?c"
    by blast
  from st(1) g have "total_records st = 3"
    by (auto simp: compute_statistics_float64 float_rows_enriched_def)
  moreover from st(2) have "positive_leakage_count st = 1"
    by simp
  ultimately show ?thesis
    using wf g st(1) by simp
qed

text \<open>
  Claim C5, as the specification states it: with at least one leakage that is not
  missing, \<^verbatim>\<open>average_leakage\<close> is \<^verbatim>\<open>total_leakage\<close> divided by the count. It fails on an
  \<^verbatim>\<open>int64\<close> leakage column whose sum leaves the range of \<^verbatim>\<open>int64\<close>: the total is the
  wrapped \<^verbatim>\<open>int64\<close> sum while the mean is taken in binary64. For two customers with a
  leakage of \<open>2^62\<close> each (numbers that binary64 holds exactly) the total is \<open>-2^63\<close> and
  the average is \<open>2^62\<close>, not \<open>-2^62\<close>.
\<close>

theorem int64_total_wraps_counterexample:
  "main_stats id (seq_sum id) Map.empty [''in.csv'' \<mapsto> big_leakage] ''in.csv'' =
     Inr \<lparr>total_records = 2,
          total_leakage = IntVal 9223372036854775808,
          average_leakage = Num 4611686018427387904,
          positive_leakage_count = 2\<rparr> \<and>
   sint (9223372036854775808 :: 64 word) = - 9223372036854775808 \<and>
   (of_int (sint (9223372036854775808 :: 64 word)) :: rat) / 2 \<noteq> 4611686018427387904"
proof -
  have "load_data id Map.empty [''in.csv'' \<mapsto> big_leakage] ''in.csv'' =
      Inr \<lparr>nrows = 2, cols =
        [(''tenure'', Int64Col [1, 1]),
         (''MonthlyCharges'', Int64Col [4611686018427387904, 4611686018427387904]),
         (''TotalCharges'', Int64Col [0, 0]),
         (''ExpectedRevenue'', Int64Col [4611686018427387904, 4611686018427387904]),
         (''RevenueLeakage'', Int64Col [4611686018427387904, 4611686018427387904])]\<rparr>"
    by (simp add: load_data_steps big_leakage_def)
  then show ?thesis
    by (simp add: main_stats_def compute_statistics_def frame_get_def seq_sum_def float_steps)
qed

text \<open>
  Claim C5, amended. With at least one leakage that is not missing: when the leakage
  column is \<^verbatim>\<open>float64\<close>, \<^verbatim>\<open>average_leakage\<close> is \<^verbatim>\<open>total_leakage\<close> divided by the number
  of leakage cells that are not missing (a binary64 division); when the leakage column
  is \<^verbatim>\<open>int64\<close>, \<^verbatim>\<open>average_leakage\<close> is the binary64 sum of the cells divided by their
  number, and \<^verbatim>\<open>total_leakage\<close> is their \<^verbatim>\<open>int64\<close> sum, which wraps around. The
  non-missing cells and their number are those of the specification, taken by filtering.
\<close>

theorem average_is_sum_over_count:
  assumes "frame_get df ''RevenueLeakage'' = Inr c"
    and "\<not> is_obj c" and "\<not> is_bool c"
    and "0 < non_missing c"
  shows "\<exists>st. compute_statistics rnd fsum df = Inr st \<and>
           average_leakage st = fdiv_count rnd (fsum (present_floats rnd c)) (non_missing c) \<and>
           (\<forall>xs. c = Float64Col xs \<longrightarrow>
              total_leakage st = FloatVal (fsum (filter (\<lambda>x. x \<noteq> NaN) xs)) \<and>
              (\<exists>s. total_leakage st = FloatVal s \<and>
                 average_leakage st =
                   fdiv_count rnd s (length (filter (\<lambda>x. x \<noteq> NaN) xs)))) \<and>
           (\<forall>xs. c = Int64Col xs \<longrightarrow>
              total_leakage st = IntVal (sum_list xs) \<and>
              average_leakage st =
                fdiv_count rnd (fsum (map (float_of_int64 rnd) xs)) (length xs))"
  using assms by (cases c) (auto simp: compute_statistics_cases)

text \<open>
  Three customers with leakages 30, missing and -10 in a \<^verbatim>\<open>float64\<close> column: the total
  is 20 and the average 20 / 2. Scenario C, with the \<^verbatim>\<open>int64\<close> leakages 30 and -10:
  the total is 20 and the average 10.
\<close>

theorem average_is_sum_over_count_witness:
  "frame_get float_rows_enriched ''RevenueLeakage'' =
     Inr (Float64Col [Num 30, NaN, Num (- 10)]) \<and>
   non_missing (Float64Col [Num 30, NaN, Num (- 10)]) = 2 \<and>
   (\<exists>st. compute_statistics id (seq_sum id) float_rows_enriched = Inr st \<and>
      total_leakage st = FloatVal (Num 20) \<and> average_leakage st = Num 10) \<and>
   frame_get scenario_C_enriched ''RevenueLeakage'' = Inr (Int64Col [30, - 10]) \<and>
   (\<exists>st. compute_statistics id (seq_sum id) scenario_C_enriched = Inr st \<and>
      total_leakage st = IntVal 20 \<and> average_leakage st = Num 10)"
proof -
  let ?c = "Float64Col [Num 30, NaN, Num (- 10)]"
  have g: "frame_get float_rows_enriched ''RevenueLeakage'' = Inr ?c"
    by (simp add: frame_get_def float_rows_enriched_def)
  have n: "\<not> is_obj ?c" "\<not> is_bool ?c" "0 < non_missing ?c" "non_missing ?c = 2"
    by simp_all
  from average_is_sum_over_count [OF g n(1-3), of id "seq_sum id"] obtain st
    where st: "compute_statistics id (seq_sum id) float_rows_enriched = Inr st"
      "average_leakage st = fdiv_count id (seq_sum id (present_floats id ?c)) (non_missing ?c)"
      "total_leakage st = FloatVal (seq_sum id (filter (\<lambda>x. x \<noteq> NaN) [Num 30, NaN, Num (- 10)]))"
    by blast
  from st(2,3) have f: "total_leakage st = FloatVal (Num 20)" "average_leakage st = Num 10"
    by (simp_all add: seq_sum_def float_steps)
  let ?d = "Int64Col [30, - 10]"
  have h: "frame_get scenario_C_enriched ''RevenueLeakage'' = Inr ?d"
    by (simp add: frame_get_def scenario_C_enriched_def)
  have m: "\<not> is_obj ?d" "\<not> is_bool ?d" "0 < non_missing ?d"
    by simp_all
  from average_is_sum_over_count [OF h m, of id "seq_sum id"] obtain st'
    where st': "compute_statistics id (seq_sum id) scenario_C_enriched = Inr st'"
      "average_leakage st' = fdiv_count id (seq_sum id (present_floats id ?d)) (non_missing ?d)"
      "total_leakage st' = IntVal (sum_list [30, - 10])"
    by blast
  from st'(2,3) have i: "total_leakage st' = IntVal 20" "average_leakage st' = Num 10"
    by (simp_all add: seq_sum_def float_steps)
  from g n(4) st(1) f h st'(1) i show ?thesis
    by blast
qed

section \<open>The failures of the loader\<close>

lemma text_column_not_all_bool:
  assumes "obj_cell raw name i = Some x" and "name \<in> set required_columns"
  shows "\<not> required_all_bool raw"
  using assms
  by (auto simp: obj_cell_def required_all_bool_iff required_columns_def
      split: sum.splits column.splits)

lemma coerce_required_Inl:
  assumes "coerce_required rnd to_num raw = Inl e"
  shows "\<exists>name \<in> set required_columns. name \<notin> set (columns raw) \<and> e = KeyError name"
  using assms
  by (auto simp: coerce_required_unfold frame_get_Inl_iff required_columns_def
      split: sum.splits)

lemma coerce_required_Inr:
  assumes "coerce_required rnd to_num raw = Inr df3"
  shows "set required_columns \<subseteq> set (columns raw)"
proof -
  from assms obtain mc tn tc where "frame_get raw ''MonthlyCharges'' = Inr mc"
    "frame_get raw ''tenure'' = Inr tn" "frame_get raw ''TotalCharges'' = Inr tc"
    by (auto simp: coerce_required_unfold split: sum.splits)
  with frame_get_Inr_iff [of raw "''MonthlyCharges''"] frame_get_Inr_iff [of raw "''tenure''"]
    frame_get_Inr_iff [of raw "''TotalCharges''"]
  show ?thesis
    by (simp add: required_columns_def)
qed

text \<open>
  On a table whose three required columns are boolean, the coercions and line 50 go
  through, and line 51 raises.
\<close>

lemma all_bool_phases:
  assumes "required_all_bool raw"
  shows "\<exists>df3 df4. coerce_required rnd to_num raw = Inr df3 \<and>
           expected_revenue rnd df3 = Inr df4 \<and>
           (\<exists>er. frame_get df4 ''ExpectedRevenue'' = Inr er \<and> is_bool er) \<and>
           revenue_leakage rnd df4 = Inl TypeError"
proof -
  from assms obtain t m c where g: "frame_get raw ''MonthlyCharges'' = Inr m"
    "frame_get raw ''tenure'' = Inr t" "frame_get raw ''TotalCharges'' = Inr c"
    and b: "is_bool m" "is_bool t" "is_bool c"
    by (auto simp: required_all_bool_iff)
  from b obtain ms ts cs where "m = BoolCol ms" "t = BoolCol ts" "c = BoolCol cs"
    by (cases m; cases t; cases c) simp_all
  with g show ?thesis
    by (simp add: coerce_required_unfold expected_revenue_def revenue_leakage_def
        derive_column_def)
qed

text \<open>
  Claim C7, as the specification states it: for every readable table with the three
  required columns the loader succeeds. It fails on a table whose three required
  columns are boolean: no cell of it is unparseable, \<^verbatim>\<open>to_numeric\<close> leaves the columns
  as they are, and the subtraction of line 51 raises TypeError.
\<close>

theorem bool_columns_abort_load_counterexample:
  "[''in.csv'' \<mapsto> all_flags] ''in.csv'' = Some all_flags \<and>
   set required_columns \<subseteq> set (columns all_flags) \<and>
   load_data id Map.empty [''in.csv'' \<mapsto> all_flags] ''in.csv'' = Inl TypeError"
proof -
  have "load_data id Map.empty [''in.csv'' \<mapsto> all_flags] ''in.csv'' = Inl TypeError"
    by (rule load_all_flags)
  then show ?thesis
    by (simp add: required_columns_def columns_def all_flags_def)
qed

text \<open>
  Claim C7, amended. A cell that cannot be parsed does not abort the load. For every
  table that \<^verbatim>\<open>read_csv\<close> returns with the three required columns, not all three of them
  boolean, and whatever the number parser accepts, the loader returns a table. In it a
  text cell \<open>s\<close> of a required column that the parser rejects has become the missing
  marker NaN (not zero, no exception), and one that the parser takes for the number
  \<open>v\<close> has become \<open>v\<close> or, in a column of dtype \<^verbatim>\<open>float64\<close>, \<open>v\<close> converted to binary64.
  A cell that was absent from a column of texts is missing too, and the cells of a
  column that was numeric already are kept.
  A table with a text cell in a required column is never all boolean (lemma
  \<open>text_column_not_all_bool\<close>).
\<close>

theorem bad_cells_become_missing:
  assumes "read_csv p = Some raw"
    and "set required_columns \<subseteq> set (columns raw)"
    and "\<not> required_all_bool raw"
  shows "\<exists>df. load_data rnd to_num read_csv p = Inr df \<and>
           (\<forall>name \<in> set required_columns. \<forall>i s.
              obj_cell raw name i = Some (Some s) \<longrightarrow>
              (to_num s = None \<longrightarrow> num_cell df name i = Some (FloatVal NaN)) \<and>
              (\<forall>v. to_num s = Some v \<longrightarrow>
                 num_cell df name i = Some v \<or>
                 num_cell df name i = Some (FloatVal (float_of_num rnd v)))) \<and>
           (\<forall>name \<in> set required_columns. \<forall>i.
              obj_cell raw name i = Some None \<longrightarrow>
              num_cell df name i = Some (FloatVal NaN)) \<and>
           (\<forall>name \<in> set required_columns. \<forall>i v.
              num_cell raw name i = Some v \<longrightarrow> num_cell df name i = Some v)"
proof -
  let ?m = "\<lambda>c. to_numeric rnd to_num c"
  from load_data_Inr_I [of read_csv p raw rnd to_num, OF assms] obtain mc tn tc er rl
    where g: "frame_get raw ''MonthlyCharges'' = Inr mc" "frame_get raw ''tenure'' = Inr tn"
      "frame_get raw ''TotalCharges'' = Inr tc"
    and l: "load_data rnd to_num read_csv p = Inr (enrich raw (?m mc) (?m tn) (?m tc) er rl)"
    by blast
  have cell: "(to_num s = None \<longrightarrow> col_cell (?m (ObjCol ss)) i = Some (FloatVal NaN)) \<and>
      (\<forall>v. to_num s = Some v \<longrightarrow>
         col_cell (?m (ObjCol ss)) i = Some v \<or>
         col_cell (?m (ObjCol ss)) i = Some (FloatVal (float_of_num rnd v)))"
    if "i < length ss" "ss ! i = Some s" for ss i s
  proof (cases "list_all is_int_cell (map (coerce_cell to_num) ss)")
    case True
    with that have "is_int_cell (to_num s)"
      by (auto simp: list_all_length)
    then obtain k where "to_num s = Some (IntVal k)"
      by (cases "to_num s" rule: is_int_cell.cases) simp_all
    with True that show ?thesis
      by (simp add: Let_def)
  next
    case False
    with that show ?thesis
      by (cases "to_num s") (simp_all add: Let_def)
  qed
  let ?df = "enrich raw (?m mc) (?m tn) (?m tc) er rl"
  have texts: "\<forall>name \<in> set required_columns. \<forall>i s.
          obj_cell raw name i = Some (Some s) \<longrightarrow>
          (to_num s = None \<longrightarrow> num_cell ?df name i = Some (FloatVal NaN)) \<and>
          (\<forall>v. to_num s = Some v \<longrightarrow>
             num_cell ?df name i = Some v \<or>
             num_cell ?df name i = Some (FloatVal (float_of_num rnd v)))"
    using g cell
    by (auto simp: obj_cell_def num_cell_def frame_get_enrich required_columns_def
        split: column.splits if_splits simp del: to_numeric.simps)
  have absent: "col_cell (?m (ObjCol ss)) i = Some (FloatVal NaN)"
    if "i < length ss" "ss ! i = None" for ss i
  proof -
    from that have "\<not> list_all is_int_cell (map (coerce_cell to_num) ss)"
      by (auto simp: list_all_length intro!: exI [of _ i])
    with that show ?thesis
      by (simp add: Let_def)
  qed
  have absents: "\<forall>name \<in> set required_columns. \<forall>i.
          obj_cell raw name i = Some None \<longrightarrow> num_cell ?df name i = Some (FloatVal NaN)"
    using g absent
    by (auto simp: obj_cell_def num_cell_def frame_get_enrich required_columns_def
        split: column.splits if_splits simp del: to_numeric.simps)
  have kept: "col_cell (?m c) i = Some v" if "col_cell c i = Some v" for c i v
    using that by (cases c) simp_all
  have numbers: "\<forall>name \<in> set required_columns. \<forall>i v.
          num_cell raw name i = Some v \<longrightarrow> num_cell ?df name i = Some v"
    using g kept
    by (auto simp: num_cell_def frame_get_enrich required_columns_def
        simp del: to_numeric.simps)
  from l texts absents numbers show ?thesis
    by blast
qed

text \<open>
  The sample has the text \<^verbatim>\<open>one\<close> as a tenure and a blank as a total: the load succeeds
  and both cells are missing, while the text \<^verbatim>\<open>5\<close> has become the number 5.
\<close>

theorem bad_cells_become_missing_witness:
  "[''in.csv'' \<mapsto> text_cells] ''in.csv'' = Some text_cells \<and>
   set required_columns \<subseteq> set (columns text_cells) \<and>
   \<not> required_all_bool text_cells \<and>
   obj_cell text_cells ''tenure'' 0 = Some (Some ''one'') \<and> text_numbers ''one'' = None \<and>
   obj_cell text_cells ''TotalCharges'' 1 = Some (Some '' '') \<and> text_numbers '' '' = None \<and>
   (\<exists>df. load_data id text_numbers [''in.csv'' \<mapsto> text_cells] ''in.csv'' = Inr df \<and>
      num_cell df ''tenure'' 0 = Some (FloatVal NaN) \<and>
      num_cell df ''TotalCharges'' 1 = Some (FloatVal NaN) \<and>
      num_cell df ''tenure'' 1 = Some (FloatVal (Num 5)))"
proof -
  let ?fs = "[''in.csv'' \<mapsto> text_cells]"
  have r: "?fs ''in.csv'' = Some text_cells"
    by simp
  have c: "set required_columns \<subseteq> set (columns text_cells)"
    by (simp add: required_columns_def columns_def text_cells_def)
  have b: "\<not> required_all_bool text_cells"
    by (simp add: required_all_bool_def required_columns_def frame_get_def text_cells_def)
  have o: "obj_cell text_cells ''tenure'' 0 = Some (Some ''one'')"
    "obj_cell text_cells ''TotalCharges'' 1 = Some (Some '' '')"
    by (simp_all add: obj_cell_def frame_get_def text_cells_def)
  have n: "text_numbers ''one'' = None" "text_numbers '' '' = None"
    by (simp_all add: text_numbers_def)
  from bad_cells_become_missing [of ?fs "''in.csv''" text_cells id text_numbers, OF r c b]
  obtain df where l: "load_data id text_numbers ?fs ''in.csv'' = Inr df"
    and cells: "\<forall>name \<in> set required_columns. \<forall>i s.
      obj_cell text_cells name i = Some (Some s) \<longrightarrow>
      (text_numbers s = None \<longrightarrow> num_cell df name i = Some (FloatVal NaN)) \<and>
      (\<forall>v. text_numbers s = Some v \<longrightarrow>
         num_cell df name i = Some v \<or>
         num_cell df name i = Some (FloatVal (float_of_num id v)))"
    by blast
  from cells o n have m: "num_cell df ''tenure'' 0 = Some (FloatVal NaN)"
    "num_cell df ''TotalCharges'' 1 = Some (FloatVal NaN)"
    by (auto simp: required_columns_def)
  from l load_text_cells have "df = text_cells_enriched"
    by simp
  then have "num_cell df ''tenure'' 1 = Some (FloatVal (Num 5))"
    by (simp add: num_cell_def frame_get_def text_cells_enriched_def)
  with l r c b o n m show ?thesis
    by blast
qed

text \<open>
  Claim C8, as the specification states it: the loader raises exactly when the table
  cannot be read or a required column is absent, before any derived column is
  computed. It fails on the readable table whose three required columns are boolean:
  the coercions go through, line 50 computes \<^verbatim>\<open>ExpectedRevenue\<close>, and line 51 raises
  TypeError.
\<close>

theorem type_error_after_expected_revenue_counterexample:
  "[''in.csv'' \<mapsto> all_flags] ''in.csv'' = Some all_flags \<and>
   set required_columns \<subseteq> set (columns all_flags) \<and>
   coerce_required id Map.empty all_flags = Inr all_flags \<and>
   expected_revenue id all_flags =
     Inr \<lparr>nrows = 1, cols =
       [(''tenure'', BoolCol [True]), (''MonthlyCharges'', BoolCol [True]),
        (''TotalCharges'', BoolCol [True]), (''ExpectedRevenue'', BoolCol [True])]\<rparr> \<and>
   revenue_leakage id
     \<lparr>nrows = 1, cols =
       [(''tenure'', BoolCol [True]), (''MonthlyCharges'', BoolCol [True]),
        (''TotalCharges'', BoolCol [True]), (''ExpectedRevenue'', BoolCol [True])]\<rparr> =
     Inl TypeError \<and>
   load_data id Map.empty [''in.csv'' \<mapsto> all_flags] ''in.csv'' = Inl TypeError"
  by (simp add: load_data_steps required_columns_def columns_def all_flags_def)

text \<open>
  Claim C8, amended. The loader raises exactly when \<^verbatim>\<open>read_csv\<close> cannot read the table,
  or one of the columns \<^verbatim>\<open>tenure\<close>, \<^verbatim>\<open>MonthlyCharges\<close>, \<^verbatim>\<open>TotalCharges\<close> is absent from
  it, or these three columns are all boolean. These are its only failures:
  \<^item> the exception of the reader;
  \<^item> the KeyError of an absent required column, which is the error the three coercion
    lines return, so it comes before any derived column is computed;
  \<^item> the TypeError of the subtraction of line 51 on three boolean columns, after the
    coercions and line 50 have gone through.
\<close>

theorem load_data_fails_iff:
  "((\<exists>e. load_data rnd to_num read_csv p = Inl e) \<longleftrightarrow>
      read_csv p = None \<or>
      (\<exists>raw. read_csv p = Some raw \<and>
         (\<not> set required_columns \<subseteq> set (columns raw) \<or> required_all_bool raw))) \<and>
   (\<forall>e. load_data rnd to_num read_csv p = Inl e \<longrightarrow>
      e = SourceUnavailable \<and> read_csv p = None \<or>
      (\<exists>raw name. read_csv p = Some raw \<and> name \<in> set required_columns \<and>
         name \<notin> set (columns raw) \<and> e = KeyError name \<and>
         coerce_required rnd to_num raw = Inl e) \<or>
      (\<exists>raw df3 df4. read_csv p = Some raw \<and> required_all_bool raw \<and> e = TypeError \<and>
         coerce_required rnd to_num raw = Inr df3 \<and>
         expected_revenue rnd df3 = Inr df4 \<and>
         revenue_leakage rnd df4 = Inl e))"
proof (intro conjI iffI allI impI)
  assume "\<exists>e. load_data rnd to_num read_csv p = Inl e"
  then obtain e where "load_data rnd to_num read_csv p = Inl e" ..
  from load_data_error_cases [OF this]
  show "read_csv p = None \<or>
      (\<exists>raw. read_csv p = Some raw \<and>
         (\<not> set required_columns \<subseteq> set (columns raw) \<or> required_all_bool raw))"
    by auto
next
  assume r: "read_csv p = None \<or>
      (\<exists>raw. read_csv p = Some raw \<and>
         (\<not> set required_columns \<subseteq> set (columns raw) \<or> required_all_bool raw))"
  show "\<exists>e. load_data rnd to_num read_csv p = Inl e"
  proof (cases "load_data rnd to_num read_csv p")
    case (Inl e)
    then show ?thesis by blast
  next
    case (Inr df)
    from load_data_Inr_D [OF this] obtain raw mc tn tc where raw: "read_csv p = Some raw"
      and g: "frame_get raw ''MonthlyCharges'' = Inr mc" "frame_get raw ''tenure'' = Inr tn"
        "frame_get raw ''TotalCharges'' = Inr tc"
      by blast
    from g frame_get_Inr_iff [of raw "''MonthlyCharges''"] frame_get_Inr_iff [of raw "''tenure''"]
      frame_get_Inr_iff [of raw "''TotalCharges''"]
    have "set required_columns \<subseteq> set (columns raw)"
      by (simp add: required_columns_def)
    with r raw have "required_all_bool raw"
      by auto
    from load_data_all_bool [of read_csv p raw rnd to_num, OF raw this] Inr show ?thesis
      by simp
  qed
next
  fix e assume e: "load_data rnd to_num read_csv p = Inl e"
  from load_data_error_cases [OF e]
  consider "e = SourceUnavailable \<and> read_csv p = None"
    | raw name where "read_csv p = Some raw" "name \<in> set required_columns"
        "name \<notin> set (columns raw)" "e = KeyError name"
    | raw where "read_csv p = Some raw" "required_all_bool raw" "e = TypeError"
    by blast
  then show "e = SourceUnavailable \<and> read_csv p = None \<or>
      (\<exists>raw name. read_csv p = Some raw \<and> name \<in> set required_columns \<and>
         name \<notin> set (columns raw) \<and> e = KeyError name \<and>
         coerce_required rnd to_num raw = Inl e) \<or>
      (\<exists>raw df3 df4. read_csv p = Some raw \<and> required_all_bool raw \<and> e = TypeError \<and>
         coerce_required rnd to_num raw = Inr df3 \<and>
         expected_revenue rnd df3 = Inr df4 \<and>
         revenue_leakage rnd df4 = Inl e)"
  proof cases
    case 1
    then show ?thesis by simp
  next
    case (2 raw name)
    have "coerce_required rnd to_num raw = Inl e"
    proof (cases "coerce_required rnd to_num raw")
      case (Inl e')
      with e 2(1) show ?thesis
        by (simp add: load_data_def)
    next
      case (Inr df3)
      from coerce_required_Inr [OF this] 2(2,3) show ?thesis
        by auto
    qed
    with 2 show ?thesis by blast
  next
    case (3 raw)
    from all_bool_phases [OF 3(2), of rnd to_num] 3 show ?thesis
      by blast
  qed
qed

text \<open>
  Four runs: a path with no file, a table without \<^verbatim>\<open>tenure\<close>, a table of three boolean
  columns, and a table with all three columns and cells that are no numbers.
\<close>

theorem load_data_fails_iff_witness:
  "[''in.csv'' \<mapsto> no_tenure] ''gone.csv'' = None \<and>
   load_data id Map.empty [''in.csv'' \<mapsto> no_tenure] ''gone.csv'' = Inl SourceUnavailable \<and>
   [''in.csv'' \<mapsto> no_tenure] ''in.csv'' = Some no_tenure \<and>
   \<not> set required_columns \<subseteq> set (columns no_tenure) \<and>
   load_data id Map.empty [''in.csv'' \<mapsto> no_tenure] ''in.csv'' = Inl (KeyError ''tenure'') \<and>
   coerce_required id Map.empty no_tenure = Inl (KeyError ''tenure'') \<and>
   required_all_bool all_flags \<and>
   load_data id Map.empty [''in.csv'' \<mapsto> all_flags] ''in.csv'' = Inl TypeError \<and>
   set required_columns \<subseteq> set (columns text_cells) \<and>
   \<not> required_all_bool text_cells \<and>
   \<not> (\<exists>e. load_data id text_numbers [''in.csv'' \<mapsto> text_cells] ''in.csv'' = Inl e)"
proof -
  let ?fs = "[''in.csv'' \<mapsto> no_tenure]"
  have gone: "?fs ''gone.csv'' = None" and r: "?fs ''in.csv'' = Some no_tenure"
    by simp_all
  have c: "\<not> set required_columns \<subseteq> set (columns no_tenure)"
    "set (columns no_tenure) = {''MonthlyCharges'', ''TotalCharges''}"
    by (simp_all add: required_columns_def columns_def no_tenure_def)
  have t: "set required_columns \<subseteq> set (columns text_cells)"
    "\<not> required_all_bool text_cells"
    by (simp_all add: required_columns_def columns_def required_all_bool_def frame_get_def
        text_cells_def)
  have b: "required_all_bool all_flags"
    "set required_columns \<subseteq> set (columns all_flags)"
    by (simp_all add: required_columns_def columns_def required_all_bool_def frame_get_def
        all_flags_def)
  have e1: "load_data id Map.empty ?fs ''gone.csv'' = Inl SourceUnavailable"
    using load_data_fails_iff [of id Map.empty ?fs "''gone.csv''"] gone
    by (auto simp del: fun_upd_apply)
  have e2: "load_data id Map.empty ?fs ''in.csv'' = Inl (KeyError ''tenure'') \<and>
      coerce_required id Map.empty no_tenure = Inl (KeyError ''tenure'')"
  proof -
    from load_data_fails_iff [of id Map.empty ?fs "''in.csv''"] r c(1)
    obtain e where e: "load_data id Map.empty ?fs ''in.csv'' = Inl e"
      by auto
    with load_data_fails_iff [of id Map.empty ?fs "''in.csv''"] r
    have "(\<exists>name. name \<in> set required_columns \<and> name \<notin> set (columns no_tenure) \<and>
             e = KeyError name \<and> coerce_required id Map.empty no_tenure = Inl e) \<or>
          required_all_bool no_tenure"
      by auto
    moreover have "\<not> required_all_bool no_tenure"
      by (simp add: required_all_bool_def required_columns_def frame_get_def no_tenure_def)
    ultimately have "e = KeyError ''tenure'' \<and>
        coerce_required id Map.empty no_tenure = Inl e"
      using c(2) by (auto simp: required_columns_def)
    with e show ?thesis by simp
  qed
  have e3: "load_data id Map.empty [''in.csv'' \<mapsto> all_flags] ''in.csv'' = Inl TypeError"
  proof -
    from load_data_fails_iff [of id Map.empty "[''in.csv'' \<mapsto> all_flags]" "''in.csv''"] b(1)
    obtain e where e: "load_data id Map.empty [''in.csv'' \<mapsto> all_flags] ''in.csv'' = Inl e"
      by auto
    with load_data_fails_iff [of id Map.empty "[''in.csv'' \<mapsto> all_flags]" "''in.csv''"] b(2)
    have "e = TypeError"
      by auto
    with e show ?thesis by simp
  qed
  have e4: "\<not> (\<exists>e. load_data id text_numbers [''in.csv'' \<mapsto> text_cells] ''in.csv'' = Inl e)"
    using load_data_fails_iff [of id text_numbers "[''in.csv'' \<mapsto> text_cells]" "''in.csv''"] t
    by simp
  from gone r c(1) t b(1) e1 e2 e3 e4 show ?thesis
    by blast
qed

text \<open>
  Claim C10, as stated: for every readable input with the three required columns the
  loader returns a table in which every column other than the three required ones is
  unchanged and exactly two new columns are appended. It fails in two ways. On a table
  that already has columns named \<^verbatim>\<open>ExpectedRevenue\<close> and \<^verbatim>\<open>RevenueLeakage\<close> the assignment
  \<^verbatim>\<open>df[name] = ...\<close> replaces them: both are overwritten and the table returned has the
  five columns of the input, none appended. On a table whose three required columns
  are boolean no table is returned.
\<close>

theorem existing_derived_columns_counterexample:
  "load_data id Map.empty [''in.csv'' \<mapsto> already_enriched] ''in.csv'' =
     Inr already_enriched_reloaded \<and>
   columns already_enriched =
     [''tenure'', ''MonthlyCharges'', ''ExpectedRevenue'', ''RevenueLeakage'', ''TotalCharges''] \<and>
   columns already_enriched_reloaded = columns already_enriched \<and>
   frame_get already_enriched ''ExpectedRevenue'' = Inr (ObjCol [Some ''n/a'']) \<and>
   frame_get already_enriched_reloaded ''ExpectedRevenue'' = Inr (Int64Col [500]) \<and>
   frame_get already_enriched ''RevenueLeakage'' = Inr (Int64Col [0]) \<and>
   frame_get already_enriched_reloaded ''RevenueLeakage'' = Inr (Int64Col [50]) \<and>
   columns all_flags = [''tenure'', ''MonthlyCharges'', ''TotalCharges''] \<and>
   load_data id Map.empty [''in.csv'' \<mapsto> all_flags] ''in.csv'' = Inl TypeError"
proof -
  have "load_data id Map.empty [''in.csv'' \<mapsto> already_enriched] ''in.csv'' =
      Inr already_enriched_reloaded"
    by (rule load_already_enriched)
  moreover have "load_data id Map.empty [''in.csv'' \<mapsto> all_flags] ''in.csv'' = Inl TypeError"
    by (rule load_all_flags)
  ultimately show ?thesis
    by (simp add: columns_def frame_get_def already_enriched_def already_enriched_reloaded_def
        all_flags_def)
qed

text \<open>
  Claim C10, amended. For every table that \<^verbatim>\<open>read_csv\<close> returns with the three required
  columns and with no column named \<^verbatim>\<open>ExpectedRevenue\<close> or \<^verbatim>\<open>RevenueLeakage\<close>: unless the
  three required columns are all boolean the loader returns a table, and a table it
  returns has the same number of rows as the input, has the columns of the input in
  their order followed by \<^verbatim>\<open>ExpectedRevenue\<close> and \<^verbatim>\<open>RevenueLeakage\<close>, and has every column
  other than \<^verbatim>\<open>tenure\<close>, \<^verbatim>\<open>MonthlyCharges\<close> and \<^verbatim>\<open>TotalCharges\<close> as it is in the input.
\<close>

theorem load_data_frame:
  assumes "read_csv p = Some raw"
    and "set required_columns \<subseteq> set (columns raw)"
    and "''ExpectedRevenue'' \<notin> set (columns raw)"
    and "''RevenueLeakage'' \<notin> set (columns raw)"
  shows "(\<not> required_all_bool raw \<longrightarrow> (\<exists>df. load_data rnd to_num read_csv p = Inr df)) \<and>
         (\<forall>df. load_data rnd to_num read_csv p = Inr df \<longrightarrow>
            nrows df = nrows raw \<and>
            columns df = columns raw @ [''ExpectedRevenue'', ''RevenueLeakage''] \<and>
            (\<forall>name \<in> set (columns raw). name \<notin> set required_columns \<longrightarrow>
               frame_get df name = frame_get raw name))"
proof (rule conjI)
  show "\<not> required_all_bool raw \<longrightarrow> (\<exists>df. load_data rnd to_num read_csv p = Inr df)"
  proof
    assume "\<not> required_all_bool raw"
    from load_data_Inr_I [of read_csv p raw rnd to_num, OF assms(1,2) this]
    show "\<exists>df. load_data rnd to_num read_csv p = Inr df"
      by blast
  qed
next
  show "\<forall>df. load_data rnd to_num read_csv p = Inr df \<longrightarrow>
      nrows df = nrows raw \<and>
      columns df = columns raw @ [''ExpectedRevenue'', ''RevenueLeakage''] \<and>
      (\<forall>name \<in> set (columns raw). name \<notin> set required_columns \<longrightarrow>
         frame_get df name = frame_get raw name)"
  proof (rule allI, rule impI)
    fix df assume "load_data rnd to_num read_csv p = Inr df"
    from load_data_Inr_D [OF this] assms(1) obtain m t c e l
      where df: "df = enrich raw m t c e l"
      by auto
    have "\<forall>name \<in> set (columns raw). name \<notin> set required_columns \<longrightarrow>
            frame_get (enrich raw m t c e l) name = frame_get raw name"
      using assms(3,4) by (auto simp: frame_get_enrich required_columns_def)
    with columns_enrich [OF assms(2-4)]
    show "nrows df = nrows raw \<and>
        columns df = columns raw @ [''ExpectedRevenue'', ''RevenueLeakage''] \<and>
        (\<forall>name \<in> set (columns raw). name \<notin> set required_columns \<longrightarrow>
           frame_get df name = frame_get raw name)"
      by (simp add: df)
  qed
qed

text \<open>
  The sample with an identifier column: two rows in, two rows out, the identifiers as
  they were, and the two derived columns after the four of the input.
\<close>

theorem load_data_frame_witness:
  "[''in.csv'' \<mapsto> text_cells] ''in.csv'' = Some text_cells \<and>
   set required_columns \<subseteq> set (columns text_cells) \<and>
   ''ExpectedRevenue'' \<notin> set (columns text_cells) \<and>
   ''RevenueLeakage'' \<notin> set (columns text_cells) \<and>
   \<not> required_all_bool text_cells \<and>
   (\<exists>df. load_data id text_numbers [''in.csv'' \<mapsto> text_cells] ''in.csv'' = Inr df \<and>
      nrows df = 2 \<and>
      columns df = [''customerID'', ''tenure'', ''MonthlyCharges'', ''TotalCharges'',
                    ''ExpectedRevenue'', ''RevenueLeakage''] \<and>
      frame_get df ''customerID'' = Inr (ObjCol [Some ''a-1'', Some ''b-2'']))"
proof -
  let ?fs = "[''in.csv'' \<mapsto> text_cells]"
  have r: "?fs ''in.csv'' = Some text_cells"
    by simp
  have c: "set required_columns \<subseteq> set (columns text_cells)"
    and e: "''ExpectedRevenue'' \<notin> set (columns text_cells)"
    and l: "''RevenueLeakage'' \<notin> set (columns text_cells)"
    and b: "\<not> required_all_bool text_cells"
    by (simp_all add: required_columns_def columns_def required_all_bool_def frame_get_def
        text_cells_def)
  note inst = load_data_frame [of ?fs "''in.csv''" text_cells id text_numbers, OF r c e l]
  from inst b obtain df where df: "load_data id text_numbers ?fs ''in.csv'' = Inr df"
    by blast
  with inst have props: "nrows df = nrows text_cells"
    "columns df = columns text_cells @ [''ExpectedRevenue'', ''RevenueLeakage'']"
    "\<forall>name \<in> set (columns text_cells). name \<notin> set required_columns \<longrightarrow>
       frame_get df name = frame_get text_cells name"
    by blast+
  from props(3) have "frame_get df ''customerID'' = frame_get text_cells ''customerID''"
    by (simp add: required_columns_def columns_def text_cells_def)
  then have "frame_get df ''customerID'' = Inr (ObjCol [Some ''a-1'', Some ''b-2''])"
    by (simp add: frame_get_def text_cells_def)
  moreover from props(1) have "nrows df = 2"
    by (simp add: text_cells_def)
  moreover from props(2) have "columns df = [''customerID'', ''tenure'', ''MonthlyCharges'',
      ''TotalCharges'', ''ExpectedRevenue'', ''RevenueLeakage'']"
    by (simp add: columns_def text_cells_def)
  ultimately show ?thesis
    using r c e l b df by blast
qed

end
